theory Spec2Isabelle
  imports Main "HOL-Library.AList" "HOL-Library.Sublist"
begin

section \<open>JavaScript values, objects and the store\<close>

text \<open>
  The values the library handles. Objects are held by reference (\<open>Ref\<close>, an address of
  the store), so that \<open>exports\<close> and \<open>module.exports\<close> can be the same object. An error
  object is carried by value with its optional \<open>code\<close> and its \<open>message\<close>; \<open>Require f\<close> is
  a \<open>require\<close> function bound to the file \<open>f\<close>; \<open>StrList\<close> is an array of strings (the
  search paths of a module).
\<close>

datatype val =
    Undefined
  | Null
  | Bool bool
  | Num int
  | Str string
  | Ref nat
  | Error "string option" string
  | Require string
  | StrList "string list"

text \<open>
  An object is its own properties in insertion order (the order \<open>Object.keys\<close> reports
  for keys that are not array indices). Inherited properties are not modelled.
\<close>

type_synonym obj = "(string \<times> val) list"

record state =
  heap :: "nat \<Rightarrow> obj option"
  next_ref :: nat
  nano_calls :: nat

definition alloc :: "obj \<Rightarrow> state \<Rightarrow> nat \<times> state" where
  "alloc ob st =
     (next_ref st, st\<lparr>heap := (heap st)(next_ref st \<mapsto> ob), next_ref := Suc (next_ref st)\<rparr>)"

text \<open>\<open>v.k\<close> for a value that is neither \<open>null\<close> nor \<open>undefined\<close>.\<close>

fun get_member :: "state \<Rightarrow> val \<Rightarrow> string \<Rightarrow> val" where
  "get_member st (Ref a) k =
     (case heap st a of
        None \<Rightarrow> Undefined
      | Some ob \<Rightarrow> (case map_of ob k of None \<Rightarrow> Undefined | Some v \<Rightarrow> v))"
| "get_member st (Error c m) k =
     (if k = ''code'' then (case c of None \<Rightarrow> Undefined | Some s \<Rightarrow> Str s)
      else if k = ''message'' then Str m
      else Undefined)"
| "get_member st v k = Undefined"

text \<open>\<open>a.k = v\<close> on the object stored at address \<open>a\<close>.\<close>

definition set_prop :: "nat \<Rightarrow> string \<Rightarrow> val \<Rightarrow> state \<Rightarrow> state" where
  "set_prop a k v st =
     (case heap st a of
        None \<Rightarrow> st
      | Some ob \<Rightarrow> st\<lparr>heap := (heap st)(a \<mapsto> AList.update k v ob)\<rparr>)"

text \<open>
  An object spread \<open>{...base, ...extra}\<close>: the properties of \<open>extra\<close> are written one
  after the other over \<open>base\<close>; a key already present keeps its place and takes the new
  value.
\<close>

definition spread :: "('k \<times> 'v) list \<Rightarrow> ('k \<times> 'v) list \<Rightarrow> ('k \<times> 'v) list" where
  "spread base extra = fold (\<lambda>(k, v). AList.update k v) extra base"

definition nullish :: "val \<Rightarrow> bool" where
  "nullish v = (v = Undefined \<or> v = Null)"

section \<open>Scripts run by the host's \<open>vm\<close>\<close>

text \<open>
  \<open>vm.runInNewContext(code, contextObject)\<close> is the host's. Its parser is a parameter of
  the model (\<open>parse_script\<close> below); what it runs is a fragment of JavaScript large enough
  for the two export styles and for failing sources: \<open>x.k = e\<close> and \<open>throw e\<close>, where
  \<open>e\<close> is a value (a literal, or any expression without effect, given by its value) or
  a variable of the context. The script sees the properties of the context object as its
  global variables and nothing else.
\<close>

datatype expr = Lit val | Var string

datatype stmt = AssignMember string string expr | Throw expr

record script =
  strict :: bool
  body :: "stmt list"

definition ReferenceError :: "string \<Rightarrow> val" where
  "ReferenceError x = Error None (x @ '' is not defined'')"

definition TypeError :: "string \<Rightarrow> val" where
  "TypeError k = Error None (''Cannot set property '' @ k)"

fun eval_expr :: "obj \<Rightarrow> expr \<Rightarrow> val + val" where
  "eval_expr ctx (Lit v) = Inr v"
| "eval_expr ctx (Var x) =
     (case map_of ctx x of None \<Rightarrow> Inl (ReferenceError x) | Some v \<Rightarrow> Inr v)"

text \<open>
  \<open>base.k = v\<close>: a \<open>TypeError\<close> on \<open>null\<close> and \<open>undefined\<close>; on a primitive value, a
  \<open>TypeError\<close> in strict code and nothing in sloppy code. The objects carried by value
  (errors, functions, arrays) accept the assignment, which the model does not record.
\<close>

fun put_member :: "bool \<Rightarrow> val \<Rightarrow> string \<Rightarrow> val \<Rightarrow> state \<Rightarrow> (val + unit) \<times> state" where
  "put_member sm (Ref a) k v st = (Inr (), set_prop a k v st)"
| "put_member sm Undefined k v st = (Inl (TypeError k), st)"
| "put_member sm Null k v st = (Inl (TypeError k), st)"
| "put_member sm (Bool b) k v st = (if sm then (Inl (TypeError k), st) else (Inr (), st))"
| "put_member sm (Num n) k v st = (if sm then (Inl (TypeError k), st) else (Inr (), st))"
| "put_member sm (Str s) k v st = (if sm then (Inl (TypeError k), st) else (Inr (), st))"
| "put_member sm base k v st = (Inr (), st)"

fun exec_stmt :: "obj \<Rightarrow> bool \<Rightarrow> stmt \<Rightarrow> state \<Rightarrow> (val + unit) \<times> state" where
  "exec_stmt ctx sm (AssignMember x k e) st =
     (case eval_expr ctx (Var x) of
        Inl t \<Rightarrow> (Inl t, st)
      | Inr base \<Rightarrow>
          (case eval_expr ctx e of
             Inl t \<Rightarrow> (Inl t, st)
           | Inr v \<Rightarrow> put_member sm base k v st))"
| "exec_stmt ctx sm (Throw e) st =
     (case eval_expr ctx e of Inl t \<Rightarrow> (Inl t, st) | Inr v \<Rightarrow> (Inl v, st))"

fun exec_stmts :: "obj \<Rightarrow> bool \<Rightarrow> stmt list \<Rightarrow> state \<Rightarrow> (val + unit) \<times> state" where
  "exec_stmts ctx sm [] st = (Inr (), st)"
| "exec_stmts ctx sm (s # ss) st =
     (case exec_stmt ctx sm s st of
        (Inl t, st') \<Rightarrow> (Inl t, st')
      | (Inr u, st') \<Rightarrow> exec_stmts ctx sm ss st')"

section \<open>Options and the host\<close>

text \<open>
  The options object of the three entry points. \<open>None\<close> is a key that is absent or
  \<open>undefined\<close>. \<open>requireFromString\<close> reads \<open>dirPath\<close> and \<open>globals\<close> only; the linked path
  of \<open>importFromString\<close> reads \<open>filename\<close>, \<open>dirname\<close>, \<open>globals\<close> and \<open>useCurrentGlobal\<close>.
\<close>

record options =
  dirPath :: "string option"
  dirname :: "string option"
  filename :: "string option"
  globals :: "obj option"
  useCurrentGlobal :: "bool option"

definition no_options :: options where
  "no_options =
     \<lparr>dirPath = None, dirname = None, filename = None, globals = None,
      useCurrentGlobal = None\<rparr>"

text \<open>
  A key of esbuild's \<open>TransformOptions\<close>: absent, present with the value \<open>undefined\<close>, or
  given. The difference between the first two shows when the object is spread.
\<close>

datatype 'a field = Missing | Undef | Given 'a

record transform_options =
  banner :: "string field"
  define_entries :: "(string \<times> string) list field"
  format :: "string field"
  other_keys :: "(string \<times> string) list"

text \<open>\<open>require.main\<close>: the module of the process's entry script, with its directory and search paths.\<close>

record main_module =
  mm_path :: string
  mm_paths :: "string list"

text \<open>
  \<open>new vm.SourceTextModule(source, {identifier, context, ...})\<close>, with the specifiers of
  its static imports, the \<open>import.meta.url\<close> its initializer sets, and the directory its
  dynamic imports are resolved against.
\<close>

record vm_module =
  module_identifier :: string
  source_text :: string
  module_context :: obj
  static_imports :: "string list"
  meta_url :: "string option"
  dynamic_import_dir :: "string option"

text \<open>
  Everything the code calls and does not define: Node (\<open>require.main\<close>, \<open>process.argv\<close>,
  \<open>path\<close>, \<open>createRequire\<close>, \<open>vm\<close>, \<open>import()\<close>), nanoid, esbuild, and the helpers of
  \<open>./utils\<close>. They are parameters; no theorem below depends on what they compute. The
  two nanoid generators (synchronous and asynchronous) draw from one sequence.
  \<open>require_main\<close> is \<open>require.main\<close>, the module of the script the process was started
  on (absent when that is not a CommonJS module); \<open>getCallerDirname\<close> is the helper of
  \<open>./utils\<close> for the directory of the file that called the entry point.
\<close>

record host =
  isInESModuleScope :: bool
  getESModuleError :: "string \<Rightarrow> val"
  isVMModuleAvailable :: bool
  require_main :: "main_module option"
  process_argv1 :: "string option"
  path_dirname :: "string \<Rightarrow> string"
  path_join :: "string \<Rightarrow> string \<Rightarrow> string"
  nanoid :: "nat \<Rightarrow> string"
  createRequire :: "string \<Rightarrow> val + val"
  parse_script :: "string \<Rightarrow> val + script"
  transform :: "string \<Rightarrow> transform_options \<Rightarrow> val + string"
  transformSync :: "string \<Rightarrow> transform_options \<Rightarrow> val + string"
  getCallerDirname :: string
  getModuleFilename :: "string \<Rightarrow> string \<Rightarrow> string"
  ensureFileURL :: "string \<Rightarrow> string"
  ensurePath :: "string \<Rightarrow> string"
  createGlobalObject :: "obj \<Rightarrow> bool \<Rightarrow> obj"
  createContextObject :: "obj \<Rightarrow> obj \<Rightarrow> obj"
  resolveModuleSpecifier :: "string \<Rightarrow> string \<Rightarrow> string"
  import_module :: "string \<Rightarrow> state \<Rightarrow> (val + val) \<times> state"
  module_requests :: "string \<Rightarrow> val + string list"
  evaluate_module :: "vm_module \<Rightarrow> vm_module list \<Rightarrow> state \<Rightarrow> (val + val) \<times> state"

definition next_nanoid :: "host \<Rightarrow> state \<Rightarrow> string \<times> state" where
  "next_nanoid h st = (nanoid h (nano_calls st), st\<lparr>nano_calls := Suc (nano_calls st)\<rparr>)"

definition runInNewContext :: "host \<Rightarrow> string \<Rightarrow> obj \<Rightarrow> state \<Rightarrow> (val + unit) \<times> state" where
  "runInNewContext h code ctx st =
     (case parse_script h code of
        Inl err \<Rightarrow> (Inl err, st)
      | Inr sc \<Rightarrow> exec_stmts ctx (strict sc) (body sc) st)"

text \<open>
  \<open>new Module(id, parent)\<close> of Node: a fresh exports object and the module object, not yet
  loaded. (Node also enters the new module among its parent's children; the parent is
  not an object of this store.)
\<close>

definition new_Module :: "host \<Rightarrow> string \<Rightarrow> state \<Rightarrow> nat \<times> state" where
  "new_Module h ident st =
     (let (e, st1) = alloc [] st
      in alloc [(''id'', Str ident), (''path'', Str (path_dirname h ident)),
                (''exports'', Ref e), (''filename'', Null), (''loaded'', Bool False)] st1)"

section \<open>The CommonJS synthesizer: \<open>requireFromString\<close> (src/require.ts)\<close>

text \<open>
  The steps of the function body are defined one by one, under the names of the local
  constants they compute (\<open>dirName\<close>, \<open>fileName\<close>, \<open>contextModule\<close>), and put together
  in \<open>requireFromString\<close>.
\<close>

text \<open>
  \<open>dirPath ?? mainModule?.path ?? path.dirname(process.argv[1])\<close>. \<open>path.dirname\<close>
  throws when the process has no entry file (\<open>process.argv[1]\<close> is \<open>undefined\<close>).
\<close>

definition dirName :: "host \<Rightarrow> options \<Rightarrow> val + string" where
  "dirName h opts =
     (case dirPath opts of
        Some d \<Rightarrow> Inr d
      | None \<Rightarrow>
          (case require_main h of
             Some mm \<Rightarrow> Inr (mm_path mm)
           | None \<Rightarrow>
               (case process_argv1 h of
                  Some f \<Rightarrow> Inr (path_dirname h f)
                | None \<Rightarrow> Inl (Error (Some ''ERR_INVALID_ARG_TYPE'')
                                  ''The path argument must be of type string''))))"

text \<open>
  Line 19: the file name, \<open>path.join(dirName, `${nanoid()}.js`)\<close>, for the identifier
  \<open>nanoid\<close> returns in the state \<open>st\<close>.
\<close>

definition fileName :: "host \<Rightarrow> string \<Rightarrow> state \<Rightarrow> string" where
  "fileName h dir st = path_join h dir (nanoid h (nano_calls st) @ ''.js'')"

text \<open>
  Lines 19 to 25: the module record, with its fields set. \<open>createRequire\<close> throws when the
  file name is not an absolute path (a relative \<open>dirPath\<close>); the record exists by then.
\<close>

definition contextModule :: "host \<Rightarrow> string \<Rightarrow> state \<Rightarrow> (val + nat) \<times> state" where
  "contextModule h dir st =
     (let (ident, st1) = next_nanoid h st;
          file = path_join h dir (ident @ ''.js'');
          (m, st2) = new_Module h file st1;
          st3 = set_prop m ''filename'' (Str file) st2;
          st4 = set_prop m ''path'' (Str dir) st3;
          st5 = set_prop m ''paths''
                  (StrList (case require_main h of Some mm \<Rightarrow> mm_paths mm | None \<Rightarrow> [])) st4
      in (case createRequire h file of
            Inl err \<Rightarrow> (Inl err, st5)
          | Inr req \<Rightarrow> (Inr m, set_prop m ''require'' req st5)))"

text \<open>Lines 27 to 34: the object literal handed to \<open>vm.runInNewContext\<close>.\<close>

definition contextObject :: "state \<Rightarrow> nat \<Rightarrow> obj option \<Rightarrow> obj" where
  "contextObject st m gl =
     spread
       [(''__dirname'', get_member st (Ref m) ''path''),
        (''__filename'', get_member st (Ref m) ''filename''),
        (''exports'', get_member st (Ref m) ''exports''),
        (''module'', Ref m),
        (''require'', get_member st (Ref m) ''require'')]
       (case gl of None \<Rightarrow> [] | Some g \<Rightarrow> g)"

definition requireFromString :: "host \<Rightarrow> string \<Rightarrow> options \<Rightarrow> state \<Rightarrow> (val + val) \<times> state" where
  "requireFromString h code opts st =
     (if isInESModuleScope h then (Inl (getESModuleError h ''requireFromString''), st)
      else
        (case dirName h opts of
           Inl err \<Rightarrow> (Inl err, st)
         | Inr dir \<Rightarrow>
             (case contextModule h dir st of
                (Inl err, st1) \<Rightarrow> (Inl err, st1)
              | (Inr m, st1) \<Rightarrow>
                  (case runInNewContext h code (contextObject st1 m (globals opts)) st1 of
                     (Inl err, st2) \<Rightarrow> (Inl err, st2)
                   | (Inr u, st2) \<Rightarrow>
                       (let st3 = set_prop m ''loaded'' (Bool True) st2
                        in (Inr (get_member st3 (Ref m) ''exports''), st3))))))"

section \<open>The ES-module bridge (import.ts)\<close>

definition USE_STRICT :: string where
  \<open>USE_STRICT = ''"use strict";''\<close>

definition IMPORT_META_URL_SHIM :: string where
  \<open>IMPORT_META_URL_SHIM =
     ''var import_meta_url = require("url").pathToFileURL(__filename).toString();''\<close>

definition IMPORT_META_RESOLVE_SHIM :: string where
  \<open>IMPORT_META_RESOLVE_SHIM =
     ''function import_meta_resolve() {\<newline>  throw new Error(\<newline>    `'import.meta.resolve' is not supported\<newline>Use asynchronous function 'importFromString' and enable '--experimental-vm-modules' CLI option.\<newline>Or use 'transformOptions' to include a polyfill. See https://github.com/evanw/esbuild/issues/1492#issuecomment-893144483 as an example.`\<newline>  );\<newline>}''\<close>

definition given_or :: "'a \<Rightarrow> 'a field \<Rightarrow> 'a" where
  "given_or d f = (case f of Given x \<Rightarrow> x | Undef \<Rightarrow> d | Missing \<Rightarrow> d)"

text \<open>
  \<open>getCommonJS\<close>: the caller's options spread first, then \<open>banner\<close>, \<open>define\<close> and
  \<open>format\<close> written over them. Inside \<open>define\<close> the two shim entries come first and the
  caller's entries are spread over them.
\<close>

definition getCommonJS :: "transform_options option \<Rightarrow> transform_options" where
  "getCommonJS transformOptions =
     \<lparr>banner = Given
        (USE_STRICT @ ''\<newline>'' @ IMPORT_META_URL_SHIM @ ''\<newline>'' @
         IMPORT_META_RESOLVE_SHIM @ ''\<newline>'' @
         (case transformOptions of None \<Rightarrow> [] | Some t \<Rightarrow> given_or [] (banner t))),
      define_entries = Given
        (spread
           [(''import.meta.url'', ''import_meta_url''),
            (''import.meta.resolve'', ''import_meta_resolve'')]
           (case transformOptions of None \<Rightarrow> [] | Some t \<Rightarrow> given_or [] (define_entries t))),
      format = Given ''cjs'',
      other_keys = (case transformOptions of None \<Rightarrow> [] | Some t \<Rightarrow> other_keys t)\<rparr>"

text \<open>
  The options of the transform on the linked path, the object literal
  \<open>{format: 'esm', ...transformOptions}\<close> of lines 75 to 78 (named here): the default is
  written first and the caller's keys over it.
\<close>

definition getESModule :: "transform_options \<Rightarrow> transform_options" where
  "getESModule t = t\<lparr>format := (case format t of Missing \<Rightarrow> Given ''esm'' | f \<Rightarrow> f)\<rparr>"

definition ERR_REQUIRE_ESM :: string where
  "ERR_REQUIRE_ESM = ''ERR_REQUIRE_ESM''"

definition IMPORTS :: string where
  "IMPORTS = ''__INTERNAL_IMPORTS_FROM_STRING''"

text \<open>\<open>error != null && error.code === ERR_REQUIRE_ESM\<close>, the test of both catch blocks.\<close>

definition isRequireESM :: "state \<Rightarrow> val \<Rightarrow> bool" where
  "isRequireESM st err = (\<not> nullish err \<and> get_member st err ''code'' = Str ERR_REQUIRE_ESM)"

definition ASYNC_MESSAGE :: string where
  "ASYNC_MESSAGE =
     '''import' statement of ES modules is not supported\<newline>Enable '--experimental-vm-modules' CLI option or replace it with dynamic 'import()' expression.''"

definition SYNC_MESSAGE :: string where
  "SYNC_MESSAGE =
     '''import' statement of ES modules is not supported\<newline>Use asynchronous function 'importFromString' instead or replace it with dynamic 'import()' expression.''"

text \<open>
  \<open>JSON.stringify\<close> of a string: the text between double quotes, with the quote, the
  backslash and the control characters escaped. Characters here are bytes.
\<close>

definition hex_digit :: "nat \<Rightarrow> char" where
  "hex_digit n = ''0123456789abcdef'' ! (n mod 16)"

definition json_escape :: "char \<Rightarrow> string" where
  "json_escape c =
     (if c = CHR 0x22 then [CHR 0x5C, CHR 0x22]
      else if c = CHR 0x5C then [CHR 0x5C, CHR 0x5C]
      else if c = CHR 0x08 then [CHR 0x5C, CHR ''b'']
      else if c = CHR 0x0C then [CHR 0x5C, CHR ''f'']
      else if c = CHR 0x0A then [CHR 0x5C, CHR ''n'']
      else if c = CHR 0x0D then [CHR 0x5C, CHR ''r'']
      else if c = CHR 0x09 then [CHR 0x5C, CHR ''t'']
      else if (of_char c :: nat) < 32
        then [CHR 0x5C, CHR ''u'', CHR ''0'', CHR ''0'',
              hex_digit (of_char c div 16), hex_digit (of_char c)]
      else [c])"

definition JSON_stringify :: "string \<Rightarrow> string" where
  "JSON_stringify s = [CHR 0x22] @ concat (map json_escape s) @ [CHR 0x22]"

text \<open>\<open>xs.join(sep)\<close>.\<close>

fun join :: "string \<Rightarrow> string list \<Rightarrow> string" where
  "join sep [] = []"
| "join sep [x] = x"
| "join sep (x # y # ys) = x @ sep @ join sep (y # ys)"

text \<open>The source text of the re-export submodule (lines 119 to 127).\<close>

definition targetModuleContent :: "string list \<Rightarrow> string \<Rightarrow> string" where
  "targetModuleContent exportedNames specifier =
     (let stringifiedSpecifier = JSON_stringify specifier
      in (if ''default'' \<in> set exportedNames
          then ''export default '' @ IMPORTS @ ''['' @ stringifiedSpecifier @ ''].default;\<newline>''
          else [])
         @ ''export const { ''
         @ join '', '' (filter (\<lambda>exportedName. exportedName \<noteq> ''default'') exportedNames)
         @ '' } = '' @ IMPORTS @ ''['' @ stringifiedSpecifier @ ''];'')"

text \<open>\<open>Object.keys(v)\<close> for the namespace object a dynamic \<open>import()\<close> resolves to.\<close>

definition Object_keys :: "state \<Rightarrow> val \<Rightarrow> string list" where
  "Object_keys st v =
     (case v of
        Ref a \<Rightarrow> (case heap st a of None \<Rightarrow> [] | Some ob \<Rightarrow> map fst ob)
      | _ \<Rightarrow> [])"

text \<open>
  \<open>new vm.SourceTextModule(source, options)\<close>: the host parses the source (and throws
  on a syntax error) before the module exists.
\<close>

definition SourceTextModule ::
  "host \<Rightarrow> string \<Rightarrow> string \<Rightarrow> obj \<Rightarrow> string option \<Rightarrow> string option \<Rightarrow> val + vm_module" where
  "SourceTextModule h src ident ctx meta dyn =
     (case module_requests h src of
        Inl err \<Rightarrow> Inl err
      | Inr reqs \<Rightarrow>
          Inr \<lparr>module_identifier = ident, source_text = src, module_context = ctx,
               static_imports = reqs, meta_url = meta, dynamic_import_dir = dyn\<rparr>)"

text \<open>
  The linker (lines 114 to 133), a closure over \<open>context\<close> and \<open>dirname\<close>:
  \<open>context[IMPORTS][specifier] = targetModule\<close> writes into the object the context
  binds to \<open>IMPORTS\<close>.
\<close>

definition linker :: "host \<Rightarrow> obj \<Rightarrow> string \<Rightarrow> string \<Rightarrow> state \<Rightarrow> (val + vm_module) \<times> state" where
  "linker h ctx dir specifier st =
     (let resolvedSpecifier = resolveModuleSpecifier h specifier dir
      in (case import_module h resolvedSpecifier st of
            (Inl err, st1) \<Rightarrow> (Inl err, st1)
          | (Inr targetModule, st1) \<Rightarrow>
              (case put_member True
                      (case map_of ctx IMPORTS of None \<Rightarrow> Undefined | Some v \<Rightarrow> v)
                      specifier targetModule st1 of
                 (Inl err, st2) \<Rightarrow> (Inl err, st2)
               | (Inr u, st2) \<Rightarrow>
                   (case SourceTextModule h
                           (targetModuleContent (Object_keys st2 targetModule) specifier)
                           resolvedSpecifier ctx None None of
                      Inl err \<Rightarrow> (Inl err, st2)
                    | Inr sub \<Rightarrow> (Inr sub, st2)))))"

text \<open>
  \<open>vmModule.link(linker)\<close>: the host calls the linker for every static import of the
  module, here one after the other. (The submodules the linker returns import nothing,
  so the host has nothing to link for them.)
\<close>

fun link_requests ::
  "host \<Rightarrow> obj \<Rightarrow> string \<Rightarrow> string list \<Rightarrow> state \<Rightarrow> (val + vm_module list) \<times> state" where
  "link_requests h ctx dir [] st = (Inr [], st)"
| "link_requests h ctx dir (sp # sps) st =
     (case linker h ctx dir sp st of
        (Inl err, st1) \<Rightarrow> (Inl err, st1)
      | (Inr sub, st1) \<Rightarrow>
          (case link_requests h ctx dir sps st1 of
             (Inl err, st2) \<Rightarrow> (Inl err, st2)
           | (Inr subs, st2) \<Rightarrow> (Inr (sub # subs), st2)))"

text \<open>
  \<open>importFromStringSync\<close> (lines 148 to 164). The transform runs outside the \<open>try\<close>;
  inside it, an error of \<open>requireFromString\<close> that passes the test is replaced by a new
  \<open>Error\<close>, and any other is thrown again as it is.
\<close>

definition importFromStringSync ::
  "host \<Rightarrow> string \<Rightarrow> transform_options option \<Rightarrow> options \<Rightarrow> state \<Rightarrow> (val + val) \<times> state" where
  "importFromStringSync h code transformOptions opts st =
     (case transformSync h code (getCommonJS transformOptions) of
        Inl err \<Rightarrow> (Inl err, st)
      | Inr transformedCode \<Rightarrow>
          (case requireFromString h transformedCode opts st of
             (Inr v, st1) \<Rightarrow> (Inr v, st1)
           | (Inl err, st1) \<Rightarrow>
               (if isRequireESM st1 err then (Inl (Error None SYNC_MESSAGE), st1)
                else (Inl err, st1))))"

text \<open>
  Lines 72 to 112 of \<open>importFromString\<close>: the optional transform, the defaults of the
  options, the context with its \<open>IMPORTS\<close> slot, and the module. The result is the module
  and the effective directory.
\<close>

definition linkedModule ::
  "host \<Rightarrow> string \<Rightarrow> transform_options option \<Rightarrow> options \<Rightarrow> state
     \<Rightarrow> (val + vm_module \<times> string) \<times> state" where
  "linkedModule h code transformOptions opts st =
     (case (case transformOptions of
              None \<Rightarrow> Inr None
            | Some t \<Rightarrow>
                (case transform h code (getESModule t) of
                   Inl err \<Rightarrow> Inl err
                 | Inr c \<Rightarrow> Inr (Some c))) of
        Inl err \<Rightarrow> (Inl err, st)
      | Inr transformedCode \<Rightarrow>
          (let (fname, st1) =
                 (case filename opts of
                    Some f \<Rightarrow> (f, st)
                  | None \<Rightarrow> (let (i, s) = next_nanoid h st in (i @ ''.js'', s)));
               dir = (case dirname opts of Some d \<Rightarrow> d | None \<Rightarrow> getCallerDirname h);
               gl = (case globals opts of Some g \<Rightarrow> g | None \<Rightarrow> []);
               ucg = (case useCurrentGlobal opts of Some b \<Rightarrow> b | None \<Rightarrow> False);
               moduleFilename = getModuleFilename h dir fname;
               moduleFileURLString = ensureFileURL h moduleFilename;
               globalObject = createGlobalObject h gl ucg;
               ctxObject = createContextObject h
                 [(''__dirname'', Str (ensurePath h dir)),
                  (''__filename'', Str (ensurePath h moduleFilename))] globalObject;
               (slot, st2) = alloc [] st1;
               ctx = AList.update IMPORTS (Ref slot) ctxObject
           in (case SourceTextModule h (case transformedCode of Some c \<Rightarrow> c | None \<Rightarrow> code)
                      moduleFileURLString ctx (Some moduleFileURLString) (Some dir) of
                 Inl err \<Rightarrow> (Inl err, st2)
               | Inr vmModule \<Rightarrow> (Inr (vmModule, dir), st2))))"

text \<open>
  \<open>importFromString\<close> (lines 53 to 138): the fallback when the host cannot link modules,
  else the linked module, linked and evaluated by the host; the result of the evaluation
  is the namespace of the module.
\<close>

definition importFromString ::
  "host \<Rightarrow> string \<Rightarrow> transform_options option \<Rightarrow> options \<Rightarrow> state \<Rightarrow> (val + val) \<times> state" where
  "importFromString h code transformOptions opts st =
     (if \<not> isVMModuleAvailable h then
        (case transform h code (getCommonJS transformOptions) of
           Inl err \<Rightarrow> (Inl err, st)
         | Inr transformedCode \<Rightarrow>
             (case requireFromString h transformedCode opts st of
                (Inr v, st1) \<Rightarrow> (Inr v, st1)
              | (Inl err, st1) \<Rightarrow>
                  (if isRequireESM st1 err then (Inl (Error None ASYNC_MESSAGE), st1)
                   else (Inl err, st1))))
      else
        (case linkedModule h code transformOptions opts st of
           (Inl err, st1) \<Rightarrow> (Inl err, st1)
         | (Inr (vmModule, dir), st1) \<Rightarrow>
             (case link_requests h (module_context vmModule) dir (static_imports vmModule) st1 of
                (Inl err, st2) \<Rightarrow> (Inl err, st2)
              | (Inr subs, st2) \<Rightarrow> evaluate_module h vmModule subs st2)))"

section \<open>A host and sources to run the model on\<close>

definition empty_state :: state where
  "empty_state = \<lparr>heap = (\<lambda>a. None), next_ref = 0, nano_calls = 0\<rparr>"

text \<open>Five sources, as the host's parser reads them; any other text is a syntax error.\<close>

definition demo_parse :: "string \<Rightarrow> val + script" where
  "demo_parse src =
     (if src = ''module.exports = 42''
        then Inr \<lparr>strict = False, body = [AssignMember ''module'' ''exports'' (Lit (Num 42))]\<rparr>
      else if src = ''exports.hello = 1; exports.hi = 2''
        then Inr \<lparr>strict = False,
                   body = [AssignMember ''exports'' ''hello'' (Lit (Num 1)),
                           AssignMember ''exports'' ''hi'' (Lit (Num 2))]\<rparr>
      else if src = ''module.exports = __filename''
        then Inr \<lparr>strict = False, body = [AssignMember ''module'' ''exports'' (Var ''__filename'')]\<rparr>
      else if src = ''module.exports = __dirname''
        then Inr \<lparr>strict = False, body = [AssignMember ''module'' ''exports'' (Var ''__dirname'')]\<rparr>
      else if src = ''throw failure''
        then Inr \<lparr>strict = False, body = [Throw (Var ''failure'')]\<rparr>
      else Inl (Error None ''SyntaxError''))"

text \<open>
  The namespace of the one module the demo host can import, \<open>/lib/dep.js\<close>: a default
  export and two named ones.
\<close>

definition demo_import :: "string \<Rightarrow> state \<Rightarrow> (val + val) \<times> state" where
  "demo_import resolved st =
     (if resolved = ''/lib/dep.js''
      then (let (a, st1) = alloc [(''a'', Num 1), (''b'', Num 2), (''default'', Num 3)] st
            in (Inr (Ref a), st1))
      else (Inl (Error (Some ''ERR_MODULE_NOT_FOUND'') resolved), st))"

text \<open>
  A process started on the CommonJS script \<open>/app/index.js\<close>; the calls are made from a
  file of the directory \<open>/lib\<close>.
\<close>

definition demo_host :: host where
  "demo_host =
     \<lparr>isInESModuleScope = False,
      getESModuleError = (\<lambda>name. Error None (name @ '' is not available in ES module scope'')),
      isVMModuleAvailable = False,
      require_main = Some \<lparr>mm_path = ''/app'', mm_paths = [''/app/node_modules'']\<rparr>,
      process_argv1 = Some ''/app/index.js'',
      path_dirname = (\<lambda>p. rev (drop 1 (dropWhile (\<lambda>c. c \<noteq> CHR ''/'') (rev p)))),
      path_join = (\<lambda>d f. d @ ''/'' @ f),
      nanoid = (\<lambda>n. ''id'' @ replicate n (CHR ''x'')),
      createRequire =
        (\<lambda>f. if take 1 f = ''/'' then Inr (Require f)
             else Inl (Error (Some ''ERR_INVALID_ARG_VALUE'') f)),
      parse_script = demo_parse,
      transform = (\<lambda>code t. Inr code),
      transformSync = (\<lambda>code t. Inr code),
      getCallerDirname = ''/lib'',
      getModuleFilename = (\<lambda>d f. d @ ''/'' @ f),
      ensureFileURL = (\<lambda>p. ''file://'' @ p),
      ensurePath = (\<lambda>p. p),
      createGlobalObject = (\<lambda>g u. g),
      createContextObject = (\<lambda>mc g. spread g mc),
      resolveModuleSpecifier = (\<lambda>sp d. if take 2 sp = ''./'' then d @ drop 1 sp else sp),
      import_module = demo_import,
      module_requests = (\<lambda>src. if src = ''import dep'' then Inr [''./dep.js''] else Inr []),
      evaluate_module = (\<lambda>m subs st. (Inr Undefined, st))\<rparr>"

text \<open>A call whose globals bind \<open>failure\<close> to \<open>v\<close>: the source \<open>throw failure\<close> then throws \<open>v\<close>.\<close>

definition throwing :: "val \<Rightarrow> options" where
  "throwing v = no_options\<lparr>globals := Some [(''failure'', v)]\<rparr>"

section \<open>Vocabulary of the claims\<close>

text \<open>The caller's \<open>globals\<close> have a property \<open>k\<close> of their own.\<close>

definition binds :: "obj option \<Rightarrow> string \<Rightarrow> bool" where
  "binds gl k = (case gl of None \<Rightarrow> False | Some g \<Rightarrow> k \<in> fst ` set g)"

text \<open>
  The two export styles with a value on the right: \<open>exports.k = v\<close> and
  \<open>module.exports = v\<close>.
\<close>

fun export_stmt :: "stmt \<Rightarrow> bool" where
  "export_stmt (AssignMember x k (Lit v)) = (x = ''exports'' \<or> (x = ''module'' \<and> k = ''exports''))"
| "export_stmt s = False"

text \<open>
  The store after lines 19 to 25 on the demo host, for the directory \<open>/app\<close>: the exports
  object at address 0 and the module record at address 1.
\<close>

definition module_state :: state where
  "module_state = snd (contextModule demo_host ''/app'' empty_state)"

text \<open>A host that can link modules, and a call that names its file.\<close>

definition linked_host :: host where
  "linked_host = demo_host\<lparr>isVMModuleAvailable := True\<rparr>"

definition given_filename :: options where
  "given_filename = no_options\<lparr>filename := Some ''given.js''\<rparr>"

text \<open>A process whose entry point is not a CommonJS module, and a call that names its directory.\<close>

definition no_main_host :: host where
  "no_main_host = demo_host\<lparr>require_main := None, process_argv1 := Some ''/srv/main.mjs''\<rparr>"

definition given_dirPath :: options where
  "given_dirPath = no_options\<lparr>dirPath := Some ''/given''\<rparr>"





text \<open>A store that holds one empty object, the slot of a context, at address 0.\<close>

definition slot_state :: state where
  "slot_state = snd (alloc [] empty_state)"

section \<open>The host's parser on the text of a re-export submodule\<close>

text \<open>
  The text of a re-export submodule, read as the host's parser reads a module. The reader
  knows the two statements the linker writes, in the layout it writes them:
  \<open>export default IMPORTS["..."].default;\<close> and \<open>export const { n1, n2 } = IMPORTS["..."];\<close>.
  It returns the key of the default re-export (if there is one), the names the
  destructuring pattern binds and exports, and the key of the slot entry they are read
  from; any other text is a syntax error.

  A name of the pattern is a binding identifier of strict code: a letter, \<open>_\<close> or \<open>$\<close>,
  then letters, digits, \<open>_\<close> and \<open>$\<close> (ASCII only here), and no reserved word.
\<close>

definition ident_start :: "char \<Rightarrow> bool" where
  "ident_start c =
     (let n = (of_char c :: nat)
      in (97 \<le> n \<and> n \<le> 122) \<or> (65 \<le> n \<and> n \<le> 90) \<or> c = CHR ''_'' \<or> c = CHR ''$'')"

definition ident_part :: "char \<Rightarrow> bool" where
  "ident_part c = (ident_start c \<or> (48 \<le> (of_char c :: nat) \<and> (of_char c :: nat) \<le> 57))"

text \<open>The reserved words of ECMAScript, with those of strict mode and of module code.\<close>

definition RESERVED_WORDS :: "string list" where
  "RESERVED_WORDS =
     [''await'', ''break'', ''case'', ''catch'', ''class'', ''const'', ''continue'',
      ''debugger'', ''default'', ''delete'', ''do'', ''else'', ''enum'', ''export'',
      ''extends'', ''false'', ''finally'', ''for'', ''function'', ''if'', ''import'', ''in'',
      ''instanceof'', ''new'', ''null'', ''return'', ''super'', ''switch'', ''this'', ''throw'',
      ''true'', ''try'', ''typeof'', ''var'', ''void'', ''while'', ''with'', ''yield'',
      ''let'', ''static'', ''implements'', ''interface'', ''package'', ''private'',
      ''protected'', ''public'', ''eval'', ''arguments'']"

definition is_binding_identifier :: "string \<Rightarrow> bool" where
  "is_binding_identifier n =
     (case n of
        [] \<Rightarrow> False
      | c # cs \<Rightarrow> ident_start c \<and> list_all ident_part cs \<and> n \<notin> set RESERVED_WORDS)"

text \<open>The rest of \<open>s\<close> after the text \<open>p\<close>, if \<open>s\<close> begins with it.\<close>

definition strip_prefix :: "string \<Rightarrow> string \<Rightarrow> string option" where
  "strip_prefix p s = (if prefix p s then Some (drop (length p) s) else None)"

text \<open>
  A double-quoted string literal, from behind its opening quote: the characters it denotes
  and the text after the closing quote. The escapes are those of ECMAScript (the hexadecimal one
  with four digits, for a character below 256); a line break ends the literal with
  an error.
\<close>

definition hex_value :: "char \<Rightarrow> nat option" where
  "hex_value c =
     (let n = (of_char c :: nat)
      in if 48 \<le> n \<and> n \<le> 57 then Some (n - 48)
         else if 97 \<le> n \<and> n \<le> 102 then Some (n - 87)
         else if 65 \<le> n \<and> n \<le> 70 then Some (n - 55)
         else None)"

fun read_string_chars :: "string \<Rightarrow> string \<Rightarrow> (string \<times> string) option" where
  "read_string_chars acc [] = None"
| "read_string_chars acc (c # cs) =
     (if c = CHR 0x22 then Some (acc, cs)
      else if c = CHR 0x5C then
        (case cs of
           [] \<Rightarrow> None
         | e # r \<Rightarrow>
             if e = CHR 0x22 \<or> e = CHR 0x5C \<or> e = CHR ''/'' then read_string_chars (acc @ [e]) r
             else if e = CHR ''b'' then read_string_chars (acc @ [CHR 0x08]) r
             else if e = CHR ''f'' then read_string_chars (acc @ [CHR 0x0C]) r
             else if e = CHR ''n'' then read_string_chars (acc @ [CHR 0x0A]) r
             else if e = CHR ''r'' then read_string_chars (acc @ [CHR 0x0D]) r
             else if e = CHR ''t'' then read_string_chars (acc @ [CHR 0x09]) r
             else if e = CHR ''u'' then
               (case r of
                  a # b # c # d # r' \<Rightarrow>
                    (case (hex_value a, hex_value b, hex_value c, hex_value d) of
                       (Some x3, Some x2, Some x1, Some x0) \<Rightarrow>
                         (if ((x3 * 16 + x2) * 16 + x1) * 16 + x0 < 256
                          then read_string_chars
                                 (acc @ [char_of (((x3 * 16 + x2) * 16 + x1) * 16 + x0)]) r'
                          else None)
                     | _ \<Rightarrow> None)
                | _ \<Rightarrow> None)
             else None)
      else if c = CHR 0x0A \<or> c = CHR 0x0D then None
      else read_string_chars (acc @ [c]) cs)"

text \<open>
  The names of a destructuring pattern, separated by a comma and a space, up to the
  \<open> } = \<close> that closes it: \<open>cur\<close> is the name being read, \<open>acc\<close> the names before it.
\<close>

fun read_names :: "string \<Rightarrow> string list \<Rightarrow> string \<Rightarrow> (string list \<times> string) option" where
  "read_names cur acc [] = None"
| "read_names cur acc (c # cs) =
     (if ident_part c then read_names (cur @ [c]) acc cs
      else if c = CHR '','' then
        (case cs of
           [] \<Rightarrow> None
         | d # r \<Rightarrow>
             if d = CHR '' '' \<and> is_binding_identifier cur then read_names [] (acc @ [cur]) r
             else None)
      else if c = CHR '' '' then
        (case strip_prefix ''} = '' cs of
           None \<Rightarrow> None
         | Some r \<Rightarrow> if is_binding_identifier cur then Some (acc @ [cur], r) else None)
      else None)"

text \<open>\<open>IMPORTS["key"]\<close>: the key, and the text after the bracket.\<close>

definition read_slot_access :: "string \<Rightarrow> (string \<times> string) option" where
  "read_slot_access s =
     (case strip_prefix (IMPORTS @ ''['' @ [CHR 0x22]) s of
        None \<Rightarrow> None
      | Some r \<Rightarrow>
          (case read_string_chars [] r of
             None \<Rightarrow> None
           | Some (key, r1) \<Rightarrow>
               (case strip_prefix '']'' r1 of None \<Rightarrow> None | Some r2 \<Rightarrow> Some (key, r2))))"

text \<open>
  \<open>export const { names } = IMPORTS["key"];\<close> at the end of the text. A name bound twice
  is a syntax error.
\<close>

definition read_const_export :: "string \<Rightarrow> (string list \<times> string) option" where
  "read_const_export s =
     (case strip_prefix ''export const { '' s of
        None \<Rightarrow> None
      | Some r \<Rightarrow>
          (case (case strip_prefix '' } = '' r of
                   Some r1 \<Rightarrow> Some ([], r1)
                 | None \<Rightarrow> read_names [] [] r) of
             None \<Rightarrow> None
           | Some (names, r1) \<Rightarrow>
               (case read_slot_access r1 of
                  None \<Rightarrow> None
                | Some (key, r2) \<Rightarrow>
                    if r2 = '';'' \<and> distinct names then Some (names, key) else None)))"

text \<open>The whole text: the default re-export, if any, on a line of its own, then the named ones.\<close>

definition read_reexports :: "string \<Rightarrow> (string option \<times> string list \<times> string) option" where
  "read_reexports s =
     (case strip_prefix ''export default '' s of
        None \<Rightarrow> map_option (\<lambda>(names, key). (None, names, key)) (read_const_export s)
      | Some r \<Rightarrow>
          (case read_slot_access r of
             None \<Rightarrow> None
           | Some (dkey, r1) \<Rightarrow>
               (case strip_prefix ''.default;\<newline>'' r1 of
                  None \<Rightarrow> None
                | Some r2 \<Rightarrow>
                    map_option (\<lambda>(names, key). (Some dkey, names, key)) (read_const_export r2))))"

text \<open>
  A module \<open>/lib/keywords.js\<close> that exports under a reserved word, as
  \<open>const x = 1; export { x as class }\<close> does, beside the module of \<open>demo_import\<close>.
\<close>

definition keyword_import :: "string \<Rightarrow> state \<Rightarrow> (val + val) \<times> state" where
  "keyword_import resolved st =
     (if resolved = ''/lib/keywords.js''
      then (let (a, st1) = alloc [(''class'', Num 1)] st in (Inr (Ref a), st1))
      else demo_import resolved st)"

text \<open>
  A host that can link modules and whose parser reads the text of every submodule: a text
  that \<open>read_reexports\<close> cannot read is a syntax error. The source \<open>import keywords\<close>
  imports \<open>./keywords.js\<close>.
\<close>

definition parsing_host :: host where
  "parsing_host =
     linked_host
       \<lparr>import_module := keyword_import,
        module_requests :=
          (\<lambda>src. if src = ''import dep'' then Inr [''./dep.js'']
                 else if src = ''import keywords'' then Inr [''./keywords.js'']
                 else (case read_reexports src of
                         None \<Rightarrow> Inl (Error None ''SyntaxError'')
                       | Some r \<Rightarrow> Inr []))\<rparr>"

section \<open>Properties of the model\<close>

lemma map_of_spread_other:
  "k \<notin> fst ` set extra \<Longrightarrow> map_of (spread base extra) k = map_of base k"
  unfolding spread_def
  by (induction extra arbitrary: base) (auto simp: update_conv')

lemma spread_distinct:
  "distinct (map fst kvs) \<Longrightarrow> fst ` set kvs \<inter> fst ` set base = {} \<Longrightarrow>
   spread base kvs = base @ kvs"
  unfolding spread_def
proof (induction kvs arbitrary: base)
  case Nil
  then show ?case by simp
next
  case (Cons kv kvs)
  obtain k v where kv: "kv = (k, v)" by (cases kv)
  have "AList.update k v base = base @ [(k, v)]"
    using Cons.prems(2) kv by (induction base) auto
  then show ?case using Cons kv by (auto simp: image_Un)
qed

lemma contextModule_eq:
  "createRequire h (fileName h dir st) = Inr req \<Longrightarrow>
   contextModule h dir st =
     (let n = next_ref st; f = fileName h dir st
      in (Inr (Suc n),
          st\<lparr>heap := (heap st)
                 (n \<mapsto> [],
                  Suc n \<mapsto>
                    [(''id'', Str f), (''path'', Str dir), (''exports'', Ref n),
                     (''filename'', Str f), (''loaded'', Bool False),
                     (''paths'', StrList (case require_main h of Some mm \<Rightarrow> mm_paths mm | None \<Rightarrow> [])),
                     (''require'', req)]),
             next_ref := Suc (Suc n), nano_calls := Suc (nano_calls st)\<rparr>))"
  by (simp add: contextModule_def fileName_def new_Module_def alloc_def next_nanoid_def
      set_prop_def Let_def)

lemma exec_stmts_append:
  "exec_stmts ctx sm (xs @ ys) st =
     (case exec_stmts ctx sm xs st of
        (Inl t, st') \<Rightarrow> (Inl t, st')
      | (Inr u, st') \<Rightarrow> exec_stmts ctx sm ys st')"
  by (induction xs arbitrary: st) (auto split: prod.splits sum.splits)

lemma exec_export_stmts:
  assumes "map_of ctx ''module'' = Some (Ref m)" "map_of ctx ''exports'' = Some (Ref e)"
  shows "list_all export_stmt pre \<Longrightarrow> heap st m \<noteq> None \<Longrightarrow>
         \<exists>st'. exec_stmts ctx sm pre st = (Inr (), st') \<and> heap st' m \<noteq> None"
proof (induction pre arbitrary: st)
  case Nil
  then show ?case by simp
next
  case (Cons s pre)
  from Cons.prems(1) obtain x k v where s: "s = AssignMember x k (Lit v)"
    and x: "x = ''exports'' \<or> (x = ''module'' \<and> k = ''exports'')"
    by (cases s rule: export_stmt.cases) auto
  from x assms obtain a where a: "map_of ctx x = Some (Ref a)" by auto
  have step: "exec_stmt ctx sm s st = (Inr (), set_prop a k v st)"
    by (simp add: s a)
  have "heap (set_prop a k v st) m \<noteq> None"
    using Cons.prems(2) by (auto simp: set_prop_def split: option.splits)
  with Cons.IH [of "set_prop a k v st"] Cons.prems(1) step show ?case by simp
qed

lemma exec_exports_props:
  assumes "map_of ctx ''exports'' = Some (Ref e)"
  shows "heap st e = Some acc \<Longrightarrow>
         \<exists>st'. exec_stmts ctx sm (map (\<lambda>(k, w). AssignMember ''exports'' k (Lit w)) kvs) st
                  = (Inr (), st')
               \<and> heap st' e = Some (spread acc kvs)
               \<and> (\<forall>a. a \<noteq> e \<longrightarrow> heap st' a = heap st a)"
proof (induction kvs arbitrary: st acc)
  case Nil
  then show ?case by (simp add: spread_def)
next
  case (Cons kv kvs)
  obtain k w where kv: "kv = (k, w)" by (cases kv)
  let ?st = "set_prop e k w st"
  have h: "heap ?st e = Some (AList.update k w acc)" "\<And>a. a \<noteq> e \<Longrightarrow> heap ?st a = heap st a"
    using Cons.prems by (auto simp: set_prop_def)
  from Cons.IH [OF h(1)] obtain st' where
    "exec_stmts ctx sm (map (\<lambda>(k, w). AssignMember ''exports'' k (Lit w)) kvs) ?st = (Inr (), st')"
    "heap st' e = Some (spread (AList.update k w acc) kvs)"
    "\<forall>a. a \<noteq> e \<longrightarrow> heap st' a = heap ?st a"
    by blast
  then show ?case using h(2) by (simp add: kv assms spread_def)
qed

lemma contextObject_module:
  "\<not> binds gl ''module'' \<Longrightarrow> map_of (contextObject st m gl) ''module'' = Some (Ref m)"
  by (cases gl) (simp_all add: contextObject_def binds_def map_of_spread_other
      del: get_member.simps)

lemma contextObject_exports:
  "\<not> binds gl ''exports'' \<Longrightarrow>
   map_of (contextObject st m gl) ''exports'' = Some (get_member st (Ref m) ''exports'')"
  by (cases gl) (simp_all add: contextObject_def binds_def map_of_spread_other
      del: get_member.simps)

lemmas run_defs =
  requireFromString_def dirName_def contextModule_def contextObject_def runInNewContext_def
  new_Module_def alloc_def set_prop_def next_nanoid_def spread_def Let_def
  demo_host_def demo_parse_def no_options_def empty_state_def

lemma map_of_spread:
  "distinct (map fst extra) \<Longrightarrow>
   map_of (spread base extra) k = (case map_of extra k of Some v \<Rightarrow> Some v | None \<Rightarrow> map_of base k)"
  unfolding spread_def
proof (induction extra arbitrary: base)
  case Nil
  then show ?case by simp
next
  case (Cons kv extra)
  obtain a b where kv: "kv = (a, b)" by (cases kv)
  from Cons.prems kv have na: "map_of extra a = None"
    by (simp add: map_of_eq_None_iff)
  show ?case using Cons kv na by (auto simp: update_conv' split: option.splits)
qed

lemma requireFromString_run:
  assumes "\<not> isInESModuleScope h" "dirName h opts = Inr dir" "parse_script h src = Inr sc"
    "contextModule h dir st = (Inr m, st1)"
  shows "requireFromString h src opts st =
      (case exec_stmts (contextObject st1 m (globals opts)) (strict sc) (body sc) st1 of
         (Inl err, st2) \<Rightarrow> (Inl err, st2)
       | (Inr u, st2) \<Rightarrow>
           (Inr (get_member (set_prop m ''loaded'' (Bool True) st2) (Ref m) ''exports''),
            set_prop m ''loaded'' (Bool True) st2))"
  using assms
  by (simp add: requireFromString_def runInNewContext_def Let_def split: prod.splits sum.splits)

lemma requireFromString_exports_binding:
  assumes scope: "\<not> isInESModuleScope h"
    and dir: "dirName h opts = Inr dir"
    and req: "createRequire h (fileName h dir st) = Inr r"
    and parse: "parse_script h src = Inr sc"
    and body: "body sc = [AssignMember ''module'' ''exports'' (Var x)]"
    and gm: "\<not> binds (globals opts) ''module''"
    and gx: "\<not> binds (globals opts) x"
    and x: "\<And>m st1. contextModule h dir st = (Inr m, st1) \<Longrightarrow>
              map_of (contextObject st1 m None) x = Some v"
  shows "fst (requireFromString h src opts st) = Inr v"
proof -
  obtain m st1 where cm: "contextModule h dir st = (Inr m, st1)"
    by (simp add: contextModule_eq [OF req] Let_def)
  let ?ctx = "contextObject st1 m (globals opts)"
  from cm obtain om where om: "heap st1 m = Some om"
    by (auto simp: contextModule_eq [OF req] Let_def)
  have cmod: "map_of ?ctx ''module'' = Some (Ref m)"
    using gm by (rule contextObject_module)
  have "map_of ?ctx x = map_of (contextObject st1 m None) x"
    using gx
    by (cases "globals opts")
       (simp_all add: contextObject_def binds_def map_of_spread_other del: get_member.simps)
  with x [OF cm] have cx: "map_of ?ctx x = Some v" by simp
  show ?thesis
    by (simp add: requireFromString_run [OF scope dir parse cm] body cmod cx set_prop_def om
        update_conv')
qed

lemma demo_linkedModule:
  "fst (linkedModule linked_host ''import dep'' None given_filename empty_state)
     = Inr (\<lparr>module_identifier = ''file:///lib/given.js'', source_text = ''import dep'',
             module_context = [(''__dirname'', Str ''/lib''), (''__filename'', Str ''/lib/given.js''),
                               (IMPORTS, Ref 0)],
             static_imports = [''./dep.js''], meta_url = Some ''file:///lib/given.js'', dynamic_import_dir = Some ''/lib''\<rparr>,
            ''/lib'')"
  by (simp add: linkedModule_def linked_host_def given_filename_def SourceTextModule_def
      IMPORTS_def run_defs)

lemma demo_require_throws:
  "fst (requireFromString demo_host ''throw failure'' (throwing v) empty_state) = Inl v"
  by (simp add: throwing_def run_defs)

lemma strip_prefix_simps [simp]:
  "strip_prefix [] r = Some r"
  "strip_prefix (c # q) (c # r) = strip_prefix q r"
  "c \<noteq> d \<Longrightarrow> strip_prefix (c # q) (d # r) = None"
  "strip_prefix (p @ q) (p @ r) = strip_prefix q r"
  by (simp_all add: strip_prefix_def)

lemma hex_digits_read_back:
  "list_all (\<lambda>k. hex_value (hex_digit k) = Some k) [0..<16]"
  by code_simp

lemma hex_value_hex_digit: "hex_value (hex_digit m) = Some (m mod 16)"
proof -
  have "m mod 16 \<in> set [0..<16]" by simp
  with hex_digits_read_back have "hex_value (hex_digit (m mod 16)) = Some (m mod 16)"
    unfolding list_all_iff by blast
  then show ?thesis by (simp add: hex_digit_def)
qed

lemma read_string_chars_escape:
  "read_string_chars acc (json_escape c @ r) = read_string_chars (acc @ [c]) r"
proof -
  let ?n = "of_char c :: nat"
  consider (named) "c = CHR 0x22 \<or> c = CHR 0x5C \<or> c = CHR 0x08 \<or> c = CHR 0x0C \<or> c = CHR 0x0A
        \<or> c = CHR 0x0D \<or> c = CHR 0x09"
    | (control) "c \<noteq> CHR 0x22" "c \<noteq> CHR 0x5C" "c \<noteq> CHR 0x08" "c \<noteq> CHR 0x0C" "c \<noteq> CHR 0x0A"
        "c \<noteq> CHR 0x0D" "c \<noteq> CHR 0x09" "?n < 32"
    | (plain) "c \<noteq> CHR 0x22" "c \<noteq> CHR 0x5C" "c \<noteq> CHR 0x08" "c \<noteq> CHR 0x0C" "c \<noteq> CHR 0x0A"
        "c \<noteq> CHR 0x0D" "c \<noteq> CHR 0x09" "\<not> ?n < 32"
    by blast
  then show ?thesis
  proof cases
    case named
    then show ?thesis
      by (elim disjE) (simp_all add: json_escape_def)
  next
    case control
    have z: "hex_value (CHR ''0'') = Some 0"
      by (simp add: hex_value_def)
    show ?thesis
      using control
      by (simp add: json_escape_def hex_value_hex_digit z)
  next
    case plain
    then show ?thesis
      by (simp add: json_escape_def)
  qed
qed

lemma read_string_chars_stringify:
  "read_string_chars acc (concat (map json_escape s) @ CHR 0x22 # rest) = Some (acc @ s, rest)"
  by (induction s arbitrary: acc) (simp_all add: read_string_chars_escape)

lemma read_slot_access_slot:
  "read_slot_access (IMPORTS @ ''['' @ JSON_stringify specifier @ '']'' @ r) = Some (specifier, r)"
  by (simp add: read_slot_access_def JSON_stringify_def read_string_chars_stringify)

lemma ident_part_separators:
  "\<not> ident_part (CHR '','')" "\<not> ident_part (CHR '' '')"
  by (simp_all add: ident_part_def ident_start_def)

lemma binding_identifier_chars:
  "is_binding_identifier n \<Longrightarrow> list_all ident_part n \<and> n \<noteq> []"
  by (cases n) (auto simp: is_binding_identifier_def ident_part_def)

lemma read_names_chars:
  "list_all ident_part x \<Longrightarrow> read_names cur acc (x @ r) = read_names (cur @ x) acc r"
  by (induction x arbitrary: cur) simp_all

lemma read_names_join:
  "names \<noteq> [] \<Longrightarrow> list_all is_binding_identifier names \<Longrightarrow>
   read_names [] acc (join '', '' names @ '' } = '' @ r) = Some (acc @ names, r)"
proof (induction "'', ''" names arbitrary: acc rule: join.induct)
  case 1
  then show ?case by simp
next
  case (2 x)
  then have x: "is_binding_identifier x" "list_all ident_part x"
    using binding_identifier_chars by auto
  show ?case
    using x by (simp add: read_names_chars ident_part_separators)
next
  case (3 x y ys)
  then have x: "is_binding_identifier x" "list_all ident_part x"
    using binding_identifier_chars by auto
  from 3 have "read_names [] (acc @ [x]) (join '', '' (y # ys) @ '' } = '' @ r)
      = Some ((acc @ [x]) @ y # ys, r)"
    by simp
  then show ?case
    using x by (simp add: read_names_chars ident_part_separators)
qed

lemma read_const_export_text:
  assumes "list_all is_binding_identifier names" "distinct names"
  shows "read_const_export
           (''export const { '' @ join '', '' names @ '' } = '' @ IMPORTS @ ''[''
              @ JSON_stringify specifier @ '']'' @ '';'')
         = Some (names, specifier)"
proof (cases names)
  case Nil
  then show ?thesis
    using read_slot_access_slot [of specifier "'';''"]
    by (simp add: read_const_export_def)
next
  case (Cons n ns)
  with assms have n: "is_binding_identifier n" by simp
  then obtain c cs where c: "n = c # cs" "ident_start c"
    by (cases n) (auto simp: is_binding_identifier_def)
  have sp: "CHR '' '' \<noteq> c"
    using c(2) by (auto simp: ident_start_def)
  have "\<exists>t. join '', '' names = c # t"
    using Cons c(1) by (cases ns) simp_all
  then obtain t where t: "join '', '' names = c # t" by blast
  have no: "strip_prefix '' } = '' (join '', '' names @ u) = None" for u
    using sp by (simp add: t)
  have rn: "read_names [] [] (join '', '' names @ '' } = '' @ u) = Some (names, u)" for u
    using read_names_join [of names "[]" u] assms(1) Cons by simp
  show ?thesis
    using no [of "'' } = '' @ IMPORTS @ ''['' @ JSON_stringify specifier @ '']'' @ '';''"]
      rn [of "IMPORTS @ ''['' @ JSON_stringify specifier @ '']'' @ '';''"]
      read_slot_access_slot [of specifier "'';''"]
    by (simp add: read_const_export_def assms(2))
qed

lemma read_reexports_targetModuleContent:
  assumes "list_all is_binding_identifier (filter (\<lambda>n. n \<noteq> ''default'') names)"
    and "distinct names"
  shows "read_reexports (targetModuleContent names specifier)
         = Some (if ''default'' \<in> set names then Some specifier else None,
                 filter (\<lambda>n. n \<noteq> ''default'') names, specifier)"
proof -
  let ?ns = "filter (\<lambda>n. n \<noteq> ''default'') names"
  let ?const = "''export const { '' @ join '', '' ?ns @ '' } = '' @ IMPORTS @ ''[''
              @ JSON_stringify specifier @ '']'' @ '';''"
  have c: "read_const_export ?const = Some (?ns, specifier)"
    using assms by (intro read_const_export_text) simp_all
  show ?thesis
  proof (cases "''default'' \<in> set names")
    case True
    have "read_reexports (''export default '' @ IMPORTS @ ''['' @ JSON_stringify specifier @ '']''
            @ ''.default;\<newline>'' @ ?const)
          = Some (Some specifier, ?ns, specifier)"
      using read_slot_access_slot [of specifier "''.default;\<newline>'' @ ?const"] c
      by (simp add: read_reexports_def)
    then show ?thesis
      using True by (simp add: targetModuleContent_def Let_def)
  next
    case False
    have "read_reexports ?const = Some (None, ?ns, specifier)"
      using c by (simp add: read_reexports_def)
    then show ?thesis
      using False by (simp add: targetModuleContent_def Let_def)
  qed
qed

lemma linker_submodule:
  assumes "linker h ctx dir specifier st = (Inr sub, st')"
  shows "module_identifier sub = resolveModuleSpecifier h specifier dir
      \<and> module_context sub = ctx
      \<and> (\<exists>targetModule st1.
            import_module h (resolveModuleSpecifier h specifier dir) st = (Inr targetModule, st1)
            \<and> source_text sub = targetModuleContent (Object_keys st' targetModule) specifier
            \<and> (\<forall>slot. map_of ctx IMPORTS = Some (Ref slot) \<longrightarrow>
                   st' = set_prop slot specifier targetModule st1))"
  using assms
  by (auto simp: linker_def SourceTextModule_def Let_def
      split: prod.splits sum.splits option.splits)

lemma effective_name_state:
  "next_ref (snd (case filename opts of
                    Some f \<Rightarrow> (f, st)
                  | None \<Rightarrow> (let (i, s) = next_nanoid h st in (i @ ''.js'', s)))) = next_ref st
   \<and> heap (snd (case filename opts of
                    Some f \<Rightarrow> (f, st)
                  | None \<Rightarrow> (let (i, s) = next_nanoid h st in (i @ ''.js'', s)))) = heap st"
  by (cases "filename opts") (simp_all add: next_nanoid_def)

section \<open>The claims\<close>

text \<open>
  C1. Take a call of \<open>requireFromString\<close> that gets as far as running the source, with
  globals that rebind neither \<open>module\<close> nor \<open>exports\<close> (a call without options is one).
  If the source ends with \<open>module.exports = v\<close>, after any number of assignments in either
  style, the call returns exactly \<open>v\<close>: the same reference for an object, the same value
  for a primitive. If the source is a sequence of \<open>exports.k = w\<close>, the call returns the
  reference of the fresh exports object, which then holds exactly the assigned properties
  with their last values (for distinct keys: the assignments themselves).
  Both hold because the context binds \<open>module\<close> to the module record and \<open>exports\<close> to
  the object \<open>module.exports\<close> refers to, created empty.
\<close>

theorem requireFromString_exports:
  assumes scope: "\<not> isInESModuleScope h"
    and dir: "dirName h opts = Inr dir"
    and req: "createRequire h (fileName h dir st) = Inr r"
    and parse: "parse_script h src = Inr sc"
    and gm: "\<not> binds (globals opts) ''module''"
    and ge: "\<not> binds (globals opts) ''exports''"
  shows "(body sc = pre @ [AssignMember ''module'' ''exports'' (Lit v)] \<and> list_all export_stmt pre
            \<longrightarrow> fst (requireFromString h src opts st) = Inr v)
       \<and> (body sc = map (\<lambda>(k, w). AssignMember ''exports'' k (Lit w)) kvs
            \<longrightarrow> (\<exists>st'. requireFromString h src opts st = (Inr (Ref (next_ref st)), st')
                       \<and> heap st' (next_ref st) = Some (spread [] kvs))
                \<and> (distinct (map fst kvs) \<longrightarrow> spread [] kvs = kvs))
       \<and> (\<exists>m st1. contextModule h dir st = (Inr m, st1)
             \<and> map_of (contextObject st1 m (globals opts)) ''module'' = Some (Ref m)
             \<and> map_of (contextObject st1 m (globals opts)) ''exports'' = Some (Ref (next_ref st))
             \<and> get_member st1 (Ref m) ''exports'' = Ref (next_ref st)
             \<and> heap st1 (next_ref st) = Some [])"
proof -
  obtain m st1 where cm: "contextModule h dir st = (Inr m, st1)"
    by (simp add: contextModule_eq [OF req] Let_def)
  let ?e = "next_ref st"
  let ?ctx = "contextObject st1 m (globals opts)"
  from cm have m: "m = Suc ?e"
    and hm: "heap st1 m \<noteq> None"
    and he: "heap st1 ?e = Some []"
    and me: "get_member st1 (Ref m) ''exports'' = Ref ?e"
    by (auto simp: contextModule_eq [OF req] Let_def)
  have cmod: "map_of ?ctx ''module'' = Some (Ref m)"
    using gm by (rule contextObject_module)
  have cexp: "map_of ?ctx ''exports'' = Some (Ref ?e)"
    using contextObject_exports [OF ge, of st1 m] me by simp
  have run: "requireFromString h src opts st =
      (case exec_stmts ?ctx (strict sc) (body sc) st1 of
         (Inl err, st2) \<Rightarrow> (Inl err, st2)
       | (Inr u, st2) \<Rightarrow>
           (Inr (get_member (set_prop m ''loaded'' (Bool True) st2) (Ref m) ''exports''),
            set_prop m ''loaded'' (Bool True) st2))"
    using scope dir parse cm
    by (simp add: requireFromString_def runInNewContext_def Let_def split: prod.splits sum.splits)
  have a: "fst (requireFromString h src opts st) = Inr v"
    if b: "body sc = pre @ [AssignMember ''module'' ''exports'' (Lit v)]"
      and p: "list_all export_stmt pre"
  proof -
    from exec_export_stmts [OF cmod cexp p hm, of "strict sc"] obtain st' where
      st': "exec_stmts ?ctx (strict sc) pre st1 = (Inr (), st')" "heap st' m \<noteq> None"
      by blast
    then obtain om where om: "heap st' m = Some om" by auto
    show ?thesis
      by (simp add: run b exec_stmts_append st' cmod set_prop_def om update_conv')
  qed
  have b: "(\<exists>st'. requireFromString h src opts st = (Inr (Ref ?e), st')
                \<and> heap st' ?e = Some (spread [] kvs))"
    if b: "body sc = map (\<lambda>(k, w). AssignMember ''exports'' k (Lit w)) kvs"
  proof -
    from exec_exports_props [OF cexp he, of "strict sc" kvs] obtain st' where
      st': "exec_stmts ?ctx (strict sc) (body sc) st1 = (Inr (), st')"
        "heap st' ?e = Some (spread [] kvs)" "\<forall>a. a \<noteq> ?e \<longrightarrow> heap st' a = heap st1 a"
      using b by auto
    from st'(3) m have same: "heap st' m = heap st1 m" by simp
    from hm obtain om where om: "heap st1 m = Some om" by auto
    from me om have ex: "map_of om ''exports'' = Some (Ref ?e)"
      by (auto split: option.splits)
    have ne: "?e \<noteq> m" using m by simp
    show ?thesis
      by (simp add: run st' set_prop_def same om update_conv' ex ne)
  qed
  have c: "distinct (map fst kvs) \<Longrightarrow> spread [] kvs = kvs"
    using spread_distinct [of kvs "[]"] by simp
  show ?thesis using a b c cm cmod cexp me he by auto
qed

theorem requireFromString_exports_witness:
  "fst (requireFromString demo_host ''module.exports = 42'' no_options empty_state) = Inr (Num 42)
   \<and> (\<exists>st'. requireFromString demo_host ''exports.hello = 1; exports.hi = 2'' no_options
               empty_state = (Inr (Ref 0), st')
            \<and> heap st' 0 = Some [(''hello'', Num 1), (''hi'', Num 2)])"
proof -
  have h: "\<not> isInESModuleScope demo_host" "dirName demo_host no_options = Inr ''/app''"
    "\<not> binds (globals no_options) ''module''" "\<not> binds (globals no_options) ''exports''"
    by (simp_all add: demo_host_def dirName_def no_options_def binds_def)
  have q: "createRequire demo_host (fileName demo_host ''/app'' empty_state)
             = Inr (Require ''/app/id.js'')"
    by (simp add: demo_host_def fileName_def empty_state_def)
  have p1: "parse_script demo_host ''module.exports = 42''
      = Inr \<lparr>strict = False, body = [AssignMember ''module'' ''exports'' (Lit (Num 42))]\<rparr>"
    by (simp add: demo_host_def demo_parse_def)
  have p2: "parse_script demo_host ''exports.hello = 1; exports.hi = 2''
      = Inr \<lparr>strict = False,
              body = [AssignMember ''exports'' ''hello'' (Lit (Num 1)),
                      AssignMember ''exports'' ''hi'' (Lit (Num 2))]\<rparr>"
    by (simp add: demo_host_def demo_parse_def)
  have s: "spread [] [(''hello'', Num 1), (''hi'', Num 2)] = [(''hello'', Num 1), (''hi'', Num 2)]"
    by (simp add: spread_def)
  from requireFromString_exports [where pre = "[]" and v = "Num 42" and kvs = "[]"
      and st = empty_state, OF h(1) h(2) q p1 h(3) h(4)]
  have a: "fst (requireFromString demo_host ''module.exports = 42'' no_options empty_state)
             = Inr (Num 42)"
    by simp
  from requireFromString_exports [where pre = "[]" and v = Undefined
      and kvs = "[(''hello'', Num 1), (''hi'', Num 2)]" and st = empty_state,
      OF h(1) h(2) q p2 h(3) h(4)]
  have b: "\<exists>st'. requireFromString demo_host ''exports.hello = 1; exports.hi = 2'' no_options
               empty_state = (Inr (Ref 0), st')
            \<and> heap st' 0 = Some [(''hello'', Num 1), (''hi'', Num 2)]"
    by (simp add: s empty_state_def)
  from a b show ?thesis by simp
qed

text \<open>
  C2. When the surrounding code runs as an ES module, \<open>requireFromString\<close> fails at once
  with the error \<open>getESModuleError\<close> builds for the name \<open>requireFromString\<close>: the state
  is the one it started from, so no identifier was drawn, no module record or exports
  object was created and the source was not run. (The wording of the message is that of
  \<open>getESModuleError\<close> in \<open>./utils\<close>.)
\<close>

theorem requireFromString_ESM_scope:
  "isInESModuleScope h \<Longrightarrow>
   requireFromString h code opts st = (Inl (getESModuleError h ''requireFromString''), st)"
  by (simp add: requireFromString_def)

theorem requireFromString_ESM_scope_witness:
  "isInESModuleScope (demo_host\<lparr>isInESModuleScope := True\<rparr>) \<and>
   requireFromString (demo_host\<lparr>isInESModuleScope := True\<rparr>) ''module.exports = 42''
       no_options empty_state
     = (Inl (Error None ''requireFromString is not available in ES module scope''), empty_state)"
  using requireFromString_ESM_scope [of "demo_host\<lparr>isInESModuleScope := True\<rparr>"
      "''module.exports = 42''" no_options empty_state]
  by (simp add: demo_host_def)

text \<open>
  C3. In \<open>importFromStringSync\<close>, and in \<open>importFromString\<close> when the host cannot link
  modules, let \<open>requireFromString\<close> throw \<open>err\<close>. If \<open>err\<close> is neither \<open>null\<close> nor
  \<open>undefined\<close> and \<open>err.code\<close> is the string \<open>ERR_REQUIRE_ESM\<close>, the caller gets a new error
  in its place: its message names \<open>importFromString\<close> (synchronous entry point) or the
  \<open>--experimental-vm-modules\<close> option (asynchronous one), and the dynamic \<open>import()\<close> in
  both. If \<open>err\<close> is \<open>null\<close> or \<open>undefined\<close>, or \<open>err.code\<close> is anything else, the caller gets
  \<open>err\<close> itself. A value \<open>requireFromString\<close> returns and an error of the transform reach
  the caller as they are.
\<close>

theorem ERR_REQUIRE_ESM_translation:
  "(transformSync h code (getCommonJS topts) = Inr tc \<and>
    requireFromString h tc opts st = (Inl err, st1) \<longrightarrow>
      (err \<noteq> Null \<and> err \<noteq> Undefined \<and> get_member st1 err ''code'' = Str ''ERR_REQUIRE_ESM'' \<longrightarrow>
         importFromStringSync h code topts opts st = (Inl (Error None SYNC_MESSAGE), st1))
      \<and> (err = Null \<or> err = Undefined \<or> get_member st1 err ''code'' \<noteq> Str ''ERR_REQUIRE_ESM'' \<longrightarrow>
         importFromStringSync h code topts opts st = (Inl err, st1)))
   \<and> (\<not> isVMModuleAvailable h \<and> transform h code (getCommonJS topts) = Inr tc \<and>
      requireFromString h tc opts st = (Inl err, st1) \<longrightarrow>
      (err \<noteq> Null \<and> err \<noteq> Undefined \<and> get_member st1 err ''code'' = Str ''ERR_REQUIRE_ESM'' \<longrightarrow>
         importFromString h code topts opts st = (Inl (Error None ASYNC_MESSAGE), st1))
      \<and> (err = Null \<or> err = Undefined \<or> get_member st1 err ''code'' \<noteq> Str ''ERR_REQUIRE_ESM'' \<longrightarrow>
         importFromString h code topts opts st = (Inl err, st1)))
   \<and> (transformSync h code (getCommonJS topts) = Inr tc \<and>
      requireFromString h tc opts st = (Inr v, st1) \<longrightarrow>
      importFromStringSync h code topts opts st = (Inr v, st1))
   \<and> (\<not> isVMModuleAvailable h \<and> transform h code (getCommonJS topts) = Inr tc \<and>
      requireFromString h tc opts st = (Inr v, st1) \<longrightarrow>
      importFromString h code topts opts st = (Inr v, st1))
   \<and> (transformSync h code (getCommonJS topts) = Inl err \<longrightarrow>
      importFromStringSync h code topts opts st = (Inl err, st))
   \<and> (\<not> isVMModuleAvailable h \<and> transform h code (getCommonJS topts) = Inl err \<longrightarrow>
      importFromString h code topts opts st = (Inl err, st))
   \<and> sublist ''importFromString'' SYNC_MESSAGE \<and> sublist ''import()'' SYNC_MESSAGE
   \<and> sublist ''--experimental-vm-modules'' ASYNC_MESSAGE \<and> sublist ''import()'' ASYNC_MESSAGE"
proof -
  have m: "sublist ''importFromString'' SYNC_MESSAGE" "sublist ''import()'' SYNC_MESSAGE"
    "sublist ''--experimental-vm-modules'' ASYNC_MESSAGE" "sublist ''import()'' ASYNC_MESSAGE"
    by code_simp+
  show ?thesis
    using m
    by (simp add: importFromStringSync_def importFromString_def isRequireESM_def nullish_def
        ERR_REQUIRE_ESM_def)
qed

theorem ERR_REQUIRE_ESM_translation_witness:
  "fst (importFromStringSync demo_host ''throw failure'' None
          (throwing (Error (Some ''ERR_REQUIRE_ESM'') ''Must use import'')) empty_state)
     = Inl (Error None SYNC_MESSAGE)
   \<and> fst (importFromString demo_host ''throw failure'' None
          (throwing (Error (Some ''ERR_REQUIRE_ESM'') ''Must use import'')) empty_state)
     = Inl (Error None ASYNC_MESSAGE)
   \<and> fst (importFromStringSync demo_host ''throw failure'' None
          (throwing (Error (Some ''ERR_MODULE_NOT_FOUND'') ''Cannot find module'')) empty_state)
     = Inl (Error (Some ''ERR_MODULE_NOT_FOUND'') ''Cannot find module'')
   \<and> fst (importFromString demo_host ''throw failure'' None
          (throwing (Error (Some ''ERR_MODULE_NOT_FOUND'') ''Cannot find module'')) empty_state)
     = Inl (Error (Some ''ERR_MODULE_NOT_FOUND'') ''Cannot find module'')
   \<and> fst (importFromStringSync demo_host ''throw failure'' None (throwing (Error None ''Boom!''))
          empty_state)
     = Inl (Error None ''Boom!'')
   \<and> fst (importFromStringSync demo_host ''throw failure'' None (throwing Null) empty_state)
     = Inl Null
   \<and> fst (importFromString demo_host ''throw failure'' None (throwing Null) empty_state)
     = Inl Null
   \<and> fst (importFromStringSync demo_host ''throw failure'' None (throwing Undefined) empty_state)
     = Inl Undefined
   \<and> fst (importFromStringSync demo_host ''throw failure'' None
          (throwing (Str ''ERR_REQUIRE_ESM'')) empty_state)
     = Inl (Str ''ERR_REQUIRE_ESM'')"
proof -
  have t: "transformSync demo_host ''throw failure'' (getCommonJS None) = Inr ''throw failure''"
       "transform demo_host ''throw failure'' (getCommonJS None) = Inr ''throw failure''"
       "\<not> isVMModuleAvailable demo_host"
    by (simp_all add: demo_host_def)
  have r: "\<exists>st1. requireFromString demo_host ''throw failure'' (throwing v) empty_state = (Inl v, st1)"
    for v
    using demo_require_throws [of v] by (metis prod.collapse)
  note T = ERR_REQUIRE_ESM_translation [where h = demo_host and code = "''throw failure''"
      and topts = None and tc = "''throw failure''" and st = empty_state]
  have replaced:
    "fst (importFromStringSync demo_host ''throw failure'' None (throwing v) empty_state)
       = Inl (Error None SYNC_MESSAGE)
     \<and> fst (importFromString demo_host ''throw failure'' None (throwing v) empty_state)
       = Inl (Error None ASYNC_MESSAGE)"
    if v: "v \<noteq> Null" "v \<noteq> Undefined" "\<And>st1. get_member st1 v ''code'' = Str ''ERR_REQUIRE_ESM''"
    for v
  proof -
    from r [of v] obtain st1 where
      q: "requireFromString demo_host ''throw failure'' (throwing v) empty_state = (Inl v, st1)"
      by blast
    from T [where opts = "throwing v" and err = v and ?st1.0 = st1, THEN conjunct1] t q v
    have a: "importFromStringSync demo_host ''throw failure'' None (throwing v) empty_state
               = (Inl (Error None SYNC_MESSAGE), st1)"
      by simp
    from T [where opts = "throwing v" and err = v and ?st1.0 = st1, THEN conjunct2, THEN conjunct1]
      t q v
    have b: "importFromString demo_host ''throw failure'' None (throwing v) empty_state
               = (Inl (Error None ASYNC_MESSAGE), st1)"
      by simp
    from a b show ?thesis by simp
  qed
  have passed:
    "fst (importFromStringSync demo_host ''throw failure'' None (throwing v) empty_state) = Inl v
     \<and> fst (importFromString demo_host ''throw failure'' None (throwing v) empty_state) = Inl v"
    if v: "v = Null \<or> v = Undefined \<or> (\<forall>st1. get_member st1 v ''code'' \<noteq> Str ''ERR_REQUIRE_ESM'')"
    for v
  proof -
    from r [of v] obtain st1 where
      q: "requireFromString demo_host ''throw failure'' (throwing v) empty_state = (Inl v, st1)"
      by blast
    from v have v': "v = Null \<or> v = Undefined \<or> get_member st1 v ''code'' \<noteq> Str ''ERR_REQUIRE_ESM''"
      by blast
    from T [where opts = "throwing v" and err = v and ?st1.0 = st1, THEN conjunct1] t q v'
    have a: "importFromStringSync demo_host ''throw failure'' None (throwing v) empty_state
               = (Inl v, st1)"
      by simp
    from T [where opts = "throwing v" and err = v and ?st1.0 = st1, THEN conjunct2, THEN conjunct1]
      t q v'
    have b: "importFromString demo_host ''throw failure'' None (throwing v) empty_state
               = (Inl v, st1)"
      by simp
    from a b show ?thesis by simp
  qed
  have 1: "fst (importFromStringSync demo_host ''throw failure'' None
          (throwing (Error (Some ''ERR_REQUIRE_ESM'') ''Must use import'')) empty_state)
     = Inl (Error None SYNC_MESSAGE)
   \<and> fst (importFromString demo_host ''throw failure'' None
          (throwing (Error (Some ''ERR_REQUIRE_ESM'') ''Must use import'')) empty_state)
     = Inl (Error None ASYNC_MESSAGE)"
    by (rule replaced) simp_all
  have 2: "fst (importFromStringSync demo_host ''throw failure'' None
          (throwing (Error (Some ''ERR_MODULE_NOT_FOUND'') ''Cannot find module'')) empty_state)
     = Inl (Error (Some ''ERR_MODULE_NOT_FOUND'') ''Cannot find module'')
   \<and> fst (importFromString demo_host ''throw failure'' None
          (throwing (Error (Some ''ERR_MODULE_NOT_FOUND'') ''Cannot find module'')) empty_state)
     = Inl (Error (Some ''ERR_MODULE_NOT_FOUND'') ''Cannot find module'')"
    by (rule passed) simp
  have 3: "fst (importFromStringSync demo_host ''throw failure'' None (throwing (Error None ''Boom!''))
          empty_state)
     = Inl (Error None ''Boom!'')
     \<and> fst (importFromString demo_host ''throw failure'' None (throwing (Error None ''Boom!''))
          empty_state)
     = Inl (Error None ''Boom!'')"
    by (rule passed) simp
  have 4: "fst (importFromStringSync demo_host ''throw failure'' None (throwing Null) empty_state)
     = Inl Null
   \<and> fst (importFromString demo_host ''throw failure'' None (throwing Null) empty_state)
     = Inl Null"
    by (rule passed) simp
  have 5: "fst (importFromStringSync demo_host ''throw failure'' None
          (throwing (Str ''ERR_REQUIRE_ESM'')) empty_state)
     = Inl (Str ''ERR_REQUIRE_ESM'')
     \<and> fst (importFromString demo_host ''throw failure'' None
          (throwing (Str ''ERR_REQUIRE_ESM'')) empty_state)
     = Inl (Str ''ERR_REQUIRE_ESM'')"
    by (rule passed) simp
  have 6: "fst (importFromStringSync demo_host ''throw failure'' None (throwing Undefined)
          empty_state)
     = Inl Undefined
   \<and> fst (importFromString demo_host ''throw failure'' None (throwing Undefined) empty_state)
     = Inl Undefined"
    by (rule passed) simp
  from 1 2 3 4 5 6 show ?thesis by simp
qed

text \<open>
  C4, as stated, fails: the caller's globals are spread last into the context object, so
  a globals entry named \<open>__filename\<close> or \<open>module\<close> replaces the file/module binding. With
  \<open>__filename\<close> in the globals the script reads the caller's value; with \<open>module\<close> in
  the globals, \<open>module.exports = 42\<close> no longer reaches the module record and the call
  returns the untouched exports object.
\<close>

theorem globals_shadow_module_bindings:
  "fst (requireFromString demo_host ''module.exports = __filename'' no_options empty_state)
     = Inr (Str ''/app/id.js'')
   \<and> fst (requireFromString demo_host ''module.exports = __filename''
            (no_options\<lparr>globals := Some [(''__filename'', Str ''/elsewhere/fake.js'')]\<rparr>)
            empty_state)
     = Inr (Str ''/elsewhere/fake.js'')
   \<and> fst (requireFromString demo_host ''module.exports = 42'' no_options empty_state)
     = Inr (Num 42)
   \<and> fst (requireFromString demo_host ''module.exports = 42''
            (no_options\<lparr>globals := Some [(''module'', Num 5)]\<rparr>) empty_state)
     = Inr (Ref 0)"
  by (simp add: run_defs)

text \<open>
  C4, amended. In \<open>requireFromString\<close> a key of the caller's globals overrides the binding
  of the same name in the execution context, the file/module bindings \<open>__dirname\<close>,
  \<open>__filename\<close>, \<open>exports\<close>, \<open>module\<close> and \<open>require\<close> included; a name the globals do
  not have keeps its binding.
\<close>

theorem globals_override_every_binding:
  "distinct (map fst g) \<Longrightarrow>
   map_of (contextObject st m (Some g)) k =
     (case map_of g k of
        Some v \<Rightarrow> Some v
      | None \<Rightarrow> map_of (contextObject st m None) k)"
proof -
  have "spread base [] = base" for base :: obj
    by (simp add: spread_def)
  then show "distinct (map fst g) \<Longrightarrow> ?thesis"
    by (simp add: contextObject_def map_of_spread del: get_member.simps split: option.splits)
qed

theorem globals_override_every_binding_witness:
  "distinct (map fst [(''__filename'', Str ''/elsewhere/fake.js''), (''module'', Num 5)])
   \<and> map_of (contextObject module_state 1
        (Some [(''__filename'', Str ''/elsewhere/fake.js''), (''module'', Num 5)])) ''module''
       = Some (Num 5)
   \<and> map_of (contextObject module_state 1
        (Some [(''__filename'', Str ''/elsewhere/fake.js''), (''module'', Num 5)])) ''__filename''
       = Some (Str ''/elsewhere/fake.js'')
   \<and> map_of (contextObject module_state 1
        (Some [(''__filename'', Str ''/elsewhere/fake.js''), (''module'', Num 5)])) ''exports''
       = Some (Ref 0)"
  using globals_override_every_binding [of "[(''__filename'', Str ''/elsewhere/fake.js''), (''module'', Num 5)]"
      module_state 1 "''module''"]
    globals_override_every_binding [of "[(''__filename'', Str ''/elsewhere/fake.js''), (''module'', Num 5)]"
      module_state 1 "''__filename''"]
    globals_override_every_binding [of "[(''__filename'', Str ''/elsewhere/fake.js''), (''module'', Num 5)]"
      module_state 1 "''exports''"]
  by (simp add: module_state_def run_defs)

text \<open>
  C5, as stated, fails for \<open>requireFromString\<close> and for the entry points that go through
  it: a \<open>filename\<close> option is not read, and the file is named by the generated
  identifier.
\<close>

theorem filename_option_ignored:
  "fst (requireFromString demo_host ''module.exports = __filename''
          (no_options\<lparr>filename := Some ''given.js''\<rparr>) empty_state)
     = Inr (Str ''/app/id.js'')
   \<and> fst (importFromStringSync demo_host ''module.exports = __filename'' None
          (no_options\<lparr>filename := Some ''given.js''\<rparr>) empty_state)
     = Inr (Str ''/app/id.js'')"
  by (simp add: run_defs importFromStringSync_def)

text \<open>
  C5, amended. On the linked path of \<open>importFromString\<close> the effective filename is the
  caller's \<open>filename\<close> when supplied, else a generated name with \<open>.js\<close>, combined with
  the effective directory (\<open>dirname\<close>, else the caller's directory) by
  \<open>getModuleFilename\<close>. \<open>requireFromString\<close>, and with it \<open>importFromStringSync\<close> and the
  fallback of \<open>importFromString\<close>, does not read \<open>filename\<close>: its file is always the
  generated name with \<open>.js\<close>, joined under the effective directory.
\<close>

theorem effective_filename:
  "requireFromString h code (opts\<lparr>filename := f\<rparr>) st = requireFromString h code opts st
   \<and> importFromStringSync h code t (opts\<lparr>filename := f\<rparr>) st
       = importFromStringSync h code t opts st
   \<and> (\<not> isVMModuleAvailable h \<longrightarrow>
        importFromString h code t (opts\<lparr>filename := f\<rparr>) st = importFromString h code t opts st)
   \<and> fileName h dir st = path_join h dir (nanoid h (nano_calls st) @ ''.js'')
   \<and> (\<not> isInESModuleScope h \<and> dirName h opts = Inr dir
        \<and> createRequire h (fileName h dir st) = Inr r \<and> parse_script h src = Inr sc
        \<and> body sc = [AssignMember ''module'' ''exports'' (Var ''__filename'')]
        \<and> \<not> binds (globals opts) ''module'' \<and> \<not> binds (globals opts) ''__filename'' \<longrightarrow>
        fst (requireFromString h src opts st) = Inr (Str (fileName h dir st)))
   \<and> (linkedModule h code t opts st = (Inr (vm, d), st') \<longrightarrow>
        d = (case dirname opts of Some x \<Rightarrow> x | None \<Rightarrow> getCallerDirname h)
        \<and> module_identifier vm =
            ensureFileURL h (getModuleFilename h d
              (case filename opts of
                 Some x \<Rightarrow> x
               | None \<Rightarrow> nanoid h (nano_calls st) @ ''.js'')))"
proof -
  have dn: "dirName h (opts\<lparr>filename := f\<rparr>) = dirName h opts"
    by (simp add: dirName_def)
  have gl: "globals (opts\<lparr>filename := f\<rparr>) = globals opts"
    by simp
  have r: "requireFromString h c (opts\<lparr>filename := f\<rparr>) st = requireFromString h c opts st" for c
    unfolding requireFromString_def dn gl by (rule refl)
  have s: "importFromStringSync h code t (opts\<lparr>filename := f\<rparr>) st
             = importFromStringSync h code t opts st"
    unfolding importFromStringSync_def r by (rule refl)
  have a: "\<not> isVMModuleAvailable h \<Longrightarrow>
      importFromString h code t (opts\<lparr>filename := f\<rparr>) st = importFromString h code t opts st"
    unfolding importFromString_def r by simp
  have g: "fst (requireFromString h src opts st) = Inr (Str (fileName h dir st))"
    if h: "\<not> isInESModuleScope h" "dirName h opts = Inr dir"
      "createRequire h (fileName h dir st) = Inr r" "parse_script h src = Inr sc"
      "body sc = [AssignMember ''module'' ''exports'' (Var ''__filename'')]"
      "\<not> binds (globals opts) ''module''" "\<not> binds (globals opts) ''__filename''"
    using h
  proof (rule requireFromString_exports_binding)
    fix m st1
    assume "contextModule h dir st = (Inr m, st1)"
    then show "map_of (contextObject st1 m None) ''__filename'' = Some (Str (fileName h dir st))"
      by (auto simp: contextModule_eq [OF h(3)] contextObject_def spread_def Let_def)
  qed
  have fn: "fileName h dir st = path_join h dir (nanoid h (nano_calls st) @ ''.js'')"
    by (simp add: fileName_def)
  have l: "d = (case dirname opts of Some x \<Rightarrow> x | None \<Rightarrow> getCallerDirname h)
        \<and> module_identifier vm =
            ensureFileURL h (getModuleFilename h d
              (case filename opts of
                 Some x \<Rightarrow> x
               | None \<Rightarrow> nanoid h (nano_calls st) @ ''.js''))"
    if "linkedModule h code t opts st = (Inr (vm, d), st')"
    using that
    by (auto simp: linkedModule_def SourceTextModule_def next_nanoid_def alloc_def Let_def
        split: option.splits sum.splits prod.splits)
  from r s a g l fn show ?thesis by blast
qed

theorem effective_filename_witness:
  "fst (requireFromString demo_host ''module.exports = __filename'' given_filename empty_state)
     = Inr (Str ''/app/id.js'')
   \<and> (case fst (linkedModule linked_host ''import dep'' None given_filename empty_state) of
         Inl err \<Rightarrow> []
       | Inr (vm, d) \<Rightarrow> module_identifier vm) = ''file:///lib/given.js''"
proof -
  let ?src = "''module.exports = __filename''"
  let ?sc = "\<lparr>strict = False, body = [AssignMember ''module'' ''exports'' (Var ''__filename'')]\<rparr>"
  have h: "\<not> isInESModuleScope demo_host" "dirName demo_host no_options = Inr ''/app''"
    "parse_script demo_host ?src = Inr ?sc"
    "\<not> binds (globals no_options) ''module''" "\<not> binds (globals no_options) ''__filename''"
    "createRequire demo_host (fileName demo_host ''/app'' empty_state) = Inr (Require ''/app/id.js'')"
    "fileName demo_host ''/app'' empty_state = ''/app/id.js''"
    by (simp_all add: demo_host_def demo_parse_def dirName_def no_options_def binds_def
        fileName_def empty_state_def)
  from effective_filename [where h = demo_host and code = ?src and opts = no_options
      and f = "Some ''given.js''" and st = empty_state and dir = "''/app''" and src = ?src
      and sc = ?sc and r = "Require ''/app/id.js''"] h
  have a: "fst (requireFromString demo_host ?src given_filename empty_state)
             = Inr (Str ''/app/id.js'')"
    by (simp add: given_filename_def)
  obtain vm d st' where
    l: "linkedModule linked_host ''import dep'' None given_filename empty_state = (Inr (vm, d), st')"
    using demo_linkedModule by (metis prod.collapse)
  from effective_filename [where h = linked_host and code = "''import dep''"
      and opts = given_filename and t = None and st = empty_state and vm = vm and d = d
      and st' = st'] l
  have "module_identifier vm = ''file:///lib/given.js''"
    by (simp add: given_filename_def no_options_def linked_host_def demo_host_def)
  with l a show ?thesis by simp
qed

text \<open>
  C6, as stated, fails in its second step: without \<open>dirPath\<close> the directory is that of
  \<open>require.main\<close>, the module of the script the process was started on, not that of the
  caller's own module. Here the call comes from a file of \<open>/lib\<close> in a process started
  on \<open>/app/index.js\<close>, and the executed source sees \<open>/app\<close> as its directory.
\<close>

theorem main_module_is_not_the_caller:
  "getCallerDirname demo_host = ''/lib''
   \<and> dirPath no_options = None
   \<and> require_main demo_host = Some \<lparr>mm_path = ''/app'', mm_paths = [''/app/node_modules'']\<rparr>
   \<and> dirName demo_host no_options = Inr ''/app''
   \<and> fst (requireFromString demo_host ''module.exports = __dirname'' no_options empty_state)
       = Inr (Str ''/app'')"
  by (simp add: run_defs)

text \<open>
  C6, amended. The effective directory of \<open>requireFromString\<close> is the \<open>dirPath\<close> option
  when supplied; else the directory of \<open>require.main\<close>, the module of the process's entry
  script; else the directory of the process entry file \<open>process.argv[1]\<close>. It is the
  directory the executed source sees as \<open>__dirname\<close>.
\<close>

theorem effective_directory:
  "(dirPath opts = Some d \<longrightarrow> dirName h opts = Inr d)
   \<and> (dirPath opts = None \<and> require_main h = Some mm \<longrightarrow> dirName h opts = Inr (mm_path mm))
   \<and> (dirPath opts = None \<and> require_main h = None \<and> process_argv1 h = Some f \<longrightarrow>
        dirName h opts = Inr (path_dirname h f))
   \<and> (\<not> isInESModuleScope h \<and> dirName h opts = Inr dir
        \<and> createRequire h (fileName h dir st) = Inr r \<and> parse_script h src = Inr sc
        \<and> body sc = [AssignMember ''module'' ''exports'' (Var ''__dirname'')]
        \<and> \<not> binds (globals opts) ''module'' \<and> \<not> binds (globals opts) ''__dirname'' \<longrightarrow>
        fst (requireFromString h src opts st) = Inr (Str dir))"
proof -
  have g: "fst (requireFromString h src opts st) = Inr (Str dir)"
    if h: "\<not> isInESModuleScope h" "dirName h opts = Inr dir"
      "createRequire h (fileName h dir st) = Inr r" "parse_script h src = Inr sc"
      "body sc = [AssignMember ''module'' ''exports'' (Var ''__dirname'')]"
      "\<not> binds (globals opts) ''module''" "\<not> binds (globals opts) ''__dirname''"
    using h
  proof (rule requireFromString_exports_binding)
    fix m st1
    assume "contextModule h dir st = (Inr m, st1)"
    then show "map_of (contextObject st1 m None) ''__dirname'' = Some (Str dir)"
      by (auto simp: contextModule_eq [OF h(3)] contextObject_def spread_def Let_def)
  qed
  then show ?thesis by (simp add: dirName_def)
qed

theorem effective_directory_witness:
  "fst (requireFromString demo_host ''module.exports = __dirname'' given_dirPath empty_state)
     = Inr (Str ''/given'')
   \<and> fst (requireFromString demo_host ''module.exports = __dirname'' no_options empty_state)
     = Inr (Str ''/app'')
   \<and> fst (requireFromString no_main_host ''module.exports = __dirname'' no_options empty_state)
     = Inr (Str ''/srv'')"
proof -
  let ?src = "''module.exports = __dirname''"
  let ?sc = "\<lparr>strict = False, body = [AssignMember ''module'' ''exports'' (Var ''__dirname'')]\<rparr>"
  have h: "\<not> isInESModuleScope demo_host" "\<not> isInESModuleScope no_main_host"
    "parse_script demo_host ?src = Inr ?sc" "parse_script no_main_host ?src = Inr ?sc"
    "\<not> binds (globals no_options) ''module''" "\<not> binds (globals no_options) ''__dirname''"
    "\<not> binds (globals given_dirPath) ''module''" "\<not> binds (globals given_dirPath) ''__dirname''"
    "dirPath given_dirPath = Some ''/given''" "dirPath no_options = None"
    "require_main demo_host = Some \<lparr>mm_path = ''/app'', mm_paths = [''/app/node_modules'']\<rparr>"
    "require_main no_main_host = None" "process_argv1 no_main_host = Some ''/srv/main.mjs''"
    "path_dirname no_main_host ''/srv/main.mjs'' = ''/srv''"
    "createRequire demo_host (fileName demo_host ''/given'' empty_state)
       = Inr (Require ''/given/id.js'')"
    "createRequire demo_host (fileName demo_host ''/app'' empty_state)
       = Inr (Require ''/app/id.js'')"
    "createRequire no_main_host (fileName no_main_host ''/srv'' empty_state)
       = Inr (Require ''/srv/id.js'')"
    by (simp_all add: demo_host_def no_main_host_def demo_parse_def no_options_def binds_def
        given_dirPath_def fileName_def empty_state_def)
  from effective_directory [where h = demo_host and opts = given_dirPath and d = "''/given''"
      and dir = "''/given''" and src = ?src and sc = ?sc and st = empty_state
      and r = "Require ''/given/id.js''"] h
  have a: "fst (requireFromString demo_host ?src given_dirPath empty_state) = Inr (Str ''/given'')"
    by simp
  from effective_directory [where h = demo_host and opts = no_options
      and mm = "\<lparr>mm_path = ''/app'', mm_paths = [''/app/node_modules'']\<rparr>"
      and dir = "''/app''" and src = ?src and sc = ?sc and st = empty_state
      and r = "Require ''/app/id.js''"] h
  have b: "fst (requireFromString demo_host ?src no_options empty_state) = Inr (Str ''/app'')"
    by simp
  from effective_directory [where h = no_main_host and opts = no_options
      and f = "''/srv/main.mjs''"
      and dir = "''/srv''" and src = ?src and sc = ?sc and st = empty_state
      and r = "Require ''/srv/id.js''"] h
  have c: "fst (requireFromString no_main_host ?src no_options empty_state) = Inr (Str ''/srv'')"
    by simp
  from a b c show ?thesis by simp
qed




text \<open>
  C8 fails on the code for an exported name that is no binding identifier. A module can
  export under a reserved word or under a string (\<open>export { x as class }\<close>,
  \<open>export { x as "foo-bar" }\<close>), and the linker writes every name as it is into the
  destructuring pattern. For the namespace of \<open>/lib/keywords.js\<close> the text it generates
  is no module: the host's parser rejects it, so the linker throws a \<open>SyntaxError\<close> where
  C8 has it return the submodule, and \<open>importFromString\<close> fails. Beside it, the texts for
  names that are binding identifiers: they read back as the re-export of \<open>default\<close> and
  of every other name from the slot entry of the specifier, whatever the specifier
  contains (\<open>read_reexports_targetModuleContent\<close> has it for all of them).
\<close>

theorem linker_reexport_reserved_word:
  \<open>targetModuleContent [''class''] ''./keywords.js''
     = ''export const { class } = __INTERNAL_IMPORTS_FROM_STRING["./keywords.js"];''
   \<and> read_reexports (targetModuleContent [''class''] ''./keywords.js'') = None
   \<and> read_reexports (targetModuleContent [''foo-bar''] ''./keywords.js'') = None
   \<and> fst (linker parsing_host [(IMPORTS, Ref 0)] ''/lib'' ''./keywords.js'' slot_state)
       = Inl (Error None ''SyntaxError'')
   \<and> fst (importFromString parsing_host ''import keywords'' None no_options empty_state)
       = Inl (Error None ''SyntaxError'')
   \<and> read_reexports (targetModuleContent [''a'', ''default'', ''b'', ''c''] ''./"dep"\<newline>.js'')
       = Some (Some ''./"dep"\<newline>.js'', [''a'', ''b'', ''c''], ''./"dep"\<newline>.js'')
   \<and> fst (linker parsing_host [(IMPORTS, Ref 0)] ''/lib'' ''./dep.js'' slot_state)
       = Inr \<lparr>module_identifier = ''/lib/dep.js'',
              source_text = ''export default __INTERNAL_IMPORTS_FROM_STRING["./dep.js"].default;\<newline>export const { a, b } = __INTERNAL_IMPORTS_FROM_STRING["./dep.js"];'',
              module_context = [(IMPORTS, Ref 0)], static_imports = [], meta_url = None,
              dynamic_import_dir = None\<rparr>\<close>
proof -
  have t: \<open>targetModuleContent [''class''] ''./keywords.js''
     = ''export const { class } = __INTERNAL_IMPORTS_FROM_STRING["./keywords.js"];''\<close>
    by (simp add: targetModuleContent_def IMPORTS_def JSON_stringify_def json_escape_def)
  have r1: "read_reexports (targetModuleContent [''class''] ''./keywords.js'') = None"
    by code_simp
  have r2: "read_reexports (targetModuleContent [''foo-bar''] ''./keywords.js'') = None"
    by code_simp
  have r3: \<open>read_reexports (targetModuleContent [''a'', ''default'', ''b'', ''c''] ''./"dep"\<newline>.js'')
       = Some (Some ''./"dep"\<newline>.js'', [''a'', ''b'', ''c''], ''./"dep"\<newline>.js'')\<close>
    by code_simp
  have r4: "read_reexports (targetModuleContent [''a'', ''b'', ''default''] ''./dep.js'')
       = Some (Some ''./dep.js'', [''a'', ''b''], ''./dep.js'')"
    by code_simp
  have d: \<open>targetModuleContent [''a'', ''b'', ''default''] ''./dep.js''
     = ''export default __INTERNAL_IMPORTS_FROM_STRING["./dep.js"].default;\<newline>export const { a, b } = __INTERNAL_IMPORTS_FROM_STRING["./dep.js"];''\<close>
    by (simp add: targetModuleContent_def IMPORTS_def JSON_stringify_def json_escape_def)
  have l1: "fst (linker parsing_host [(IMPORTS, Ref 0)] ''/lib'' ''./keywords.js'' slot_state)
       = Inl (Error None ''SyntaxError'')"
    using r1
    by (simp add: linker_def parsing_host_def linked_host_def demo_host_def keyword_import_def
        slot_state_def alloc_def empty_state_def set_prop_def SourceTextModule_def
        Object_keys_def IMPORTS_def Let_def t)
  have l2: \<open>fst (linker parsing_host [(IMPORTS, Ref 0)] ''/lib'' ''./dep.js'' slot_state)
       = Inr \<lparr>module_identifier = ''/lib/dep.js'',
              source_text = ''export default __INTERNAL_IMPORTS_FROM_STRING["./dep.js"].default;\<newline>export const { a, b } = __INTERNAL_IMPORTS_FROM_STRING["./dep.js"];'',
              module_context = [(IMPORTS, Ref 0)], static_imports = [], meta_url = None,
              dynamic_import_dir = None\<rparr>\<close>
    using r4
    by (simp add: linker_def parsing_host_def linked_host_def demo_host_def keyword_import_def
        demo_import_def slot_state_def alloc_def empty_state_def set_prop_def
        SourceTextModule_def Object_keys_def IMPORTS_def Let_def d)
  have i: "fst (importFromString parsing_host ''import keywords'' None no_options empty_state)
       = Inl (Error None ''SyntaxError'')"
    using r1
    by (simp add: importFromString_def linkedModule_def linker_def parsing_host_def
        linked_host_def keyword_import_def SourceTextModule_def Object_keys_def IMPORTS_def
        run_defs t)
  from t r1 r2 r3 l1 l2 i show ?thesis by simp
qed

text \<open>
  C10, as stated, fails in its second half: the slot is a property of the context object,
  so the name \<open>__INTERNAL_IMPORTS_FROM_STRING\<close> is a global variable of the executed
  code, which can read the slot and write into it.
\<close>

theorem imports_slot_is_a_context_binding:
  "(case fst (linkedModule linked_host ''import dep'' None no_options empty_state) of
      Inl err \<Rightarrow> Inl err
    | Inr (vm, d) \<Rightarrow> eval_expr (module_context vm) (Var IMPORTS)) = Inr (Ref 0)
   \<and> (case linkedModule linked_host ''import dep'' None no_options empty_state of
        (Inl err, st') \<Rightarrow> None
      | (Inr (vm, d), st') \<Rightarrow>
          heap (snd (exec_stmt (module_context vm) True
                       (AssignMember IMPORTS ''seen'' (Lit (Bool True))) st')) 0)
       = Some [(''seen'', Bool True)]"
  by (simp add: linkedModule_def linked_host_def SourceTextModule_def IMPORTS_def run_defs)

text \<open>
  C10, amended. On the linked path every call creates the slot as a fresh empty object,
  leaving the rest of the store as it was, and installs it in the context object under the
  name \<open>__INTERNAL_IMPORTS_FROM_STRING\<close>, whatever the context held under that name: the
  slot is a binding of the execution context (the re-export submodules read it by that
  name).
\<close>

theorem imports_slot_starts_empty:
  "linkedModule h code t opts st = (Inr (vm, d), st') \<longrightarrow>
     map_of (module_context vm) IMPORTS = Some (Ref (next_ref st))
     \<and> eval_expr (module_context vm) (Var IMPORTS) = Inr (Ref (next_ref st))
     \<and> heap st' (next_ref st) = Some []
     \<and> (\<forall>a. a \<noteq> next_ref st \<longrightarrow> heap st' a = heap st a)"
  using effective_name_state [where opts = opts and st = st and h = h]
  by (auto simp: linkedModule_def SourceTextModule_def alloc_def Let_def case_prod_beta
      update_conv' split: sum.splits)

theorem imports_slot_starts_empty_witness:
  "(case linkedModule linked_host ''import dep'' None given_filename empty_state of
      (Inl err, st') \<Rightarrow> None
    | (Inr (vm, d), st') \<Rightarrow> map_option (\<lambda>v. (v, heap st' 0)) (map_of (module_context vm) IMPORTS))
     = Some (Ref 0, Some [])"
proof -
  obtain vm d st' where
    l: "linkedModule linked_host ''import dep'' None given_filename empty_state = (Inr (vm, d), st')"
    using demo_linkedModule by (metis prod.collapse)
  from imports_slot_starts_empty [where h = linked_host and code = "''import dep''" and t = None
      and opts = given_filename and st = empty_state and vm = vm and d = d and st' = st'] l
  show ?thesis by (simp add: empty_state_def)
qed

end
